theory Spec2Isabelle
  imports Complex_Main "HOL-Library.AList" "HOL-Library.Sublist"
begin

section \<open>JavaScript values and Firestore documents\<close>

text \<open>
  Firestore documents are schemaless: the services read them with \<open>doc.data()\<close>, build new
  ones with object spreads and write them back with \<open>set\<close> and \<open>update\<close>. A document is
  therefore an object of field/value pairs in insertion order; an absent key is JavaScript's
  \<open>undefined\<close>. Numbers are exact rationals (IEEE rounding, \<open>NaN\<close> and the infinities are
  outside this model). \<open>JServerTimestamp\<close> is the \<open>serverTimestamp()\<close> sentinel, which
  the store keeps as written here.
\<close>

datatype jsval =
    JNull
  | JBool bool
  | JNum rat
  | JStr string
  | JTimestamp int
  | JServerTimestamp
  | JArr "jsval list"
  | JObj "(string \<times> jsval) list"

type_synonym obj = "(string \<times> jsval) list"

definition field :: "obj \<Rightarrow> string \<Rightarrow> jsval option" where
  "field ob k = map_of ob k"

text \<open>\<open>{...ob, k: v}\<close>: an existing key keeps its place, a new one is appended.\<close>

definition with_field :: "string \<Rightarrow> jsval \<Rightarrow> obj \<Rightarrow> obj" where
  "with_field k v ob = AList.update k v ob"

text \<open>\<open>{...a, ...b}\<close>.\<close>

definition spread :: "obj \<Rightarrow> obj \<Rightarrow> obj" where
  "spread a b = fold (\<lambda>(k, v). with_field k v) b a"

text \<open>\<open>const {k, ...rest} = ob\<close>.\<close>

definition without_field :: "string \<Rightarrow> obj \<Rightarrow> obj" where
  "without_field k ob = AList.delete k ob"

text \<open>JavaScript truthiness; \<open>None\<close> is \<open>undefined\<close>.\<close>

fun truthy :: "jsval option \<Rightarrow> bool" where
  "truthy None = False"
| "truthy (Some JNull) = False"
| "truthy (Some (JBool b)) = b"
| "truthy (Some (JNum r)) = (r \<noteq> 0)"
| "truthy (Some (JStr s)) = (s \<noteq> [])"
| "truthy (Some _) = True"

text \<open>\<open>a || b\<close> where \<open>b\<close> is a value, and \<open>a || null\<close> for a nullable string input.\<close>

definition js_or :: "jsval option \<Rightarrow> jsval \<Rightarrow> jsval" where
  "js_or a b = (if truthy a then the a else b)"

definition str_or_null :: "string option \<Rightarrow> jsval" where
  "str_or_null s = (case s of Some t \<Rightarrow> (if t \<noteq> [] then JStr t else JNull) | None \<Rightarrow> JNull)"

text \<open>A nullable string passed through as it is (\<open>null\<close> stays \<open>null\<close>).\<close>

definition str_nullable :: "string option \<Rightarrow> jsval" where
  "str_nullable s = (case s of Some t \<Rightarrow> JStr t | None \<Rightarrow> JNull)"

definition truthy_str :: "string option \<Rightarrow> bool" where
  "truthy_str s = (case s of Some t \<Rightarrow> t \<noteq> [] | None \<Rightarrow> False)"

section \<open>The document store\<close>

text \<open>
  A document lives at \<open>users/{userId}/{subcollection}/{docId}\<close>. The store is the list of
  its documents; the order of the list stands for the order in which the store enumerates a
  collection to a query.
\<close>

type_synonym docpath = "string \<times> string \<times> string"
type_synonym store = "(docpath \<times> obj) list"

datatype error = Error string | TypeError string | FirestoreError string

fun error_message :: "error \<Rightarrow> string" where
  "error_message (Error m) = m"
| "error_message (TypeError m) = m"
| "error_message (FirestoreError m) = m"

definition INVENTORY_SUBCOLLECTION :: string where
  "INVENTORY_SUBCOLLECTION = ''inventoryProducts''"

definition DOCUMENTS_SUBCOLLECTION :: string where
  "DOCUMENTS_SUBCOLLECTION = ''documents''"

definition SUPPLIERS_SUBCOLLECTION :: string where
  "SUPPLIERS_SUBCOLLECTION = ''suppliers''"

definition USER_SETTINGS_SUBCOLLECTION :: string where
  "USER_SETTINGS_SUBCOLLECTION = ''settings''"

definition getUserSubcollectionRef :: "string \<Rightarrow> string \<Rightarrow> error + (string \<times> string)" where
  "getUserSubcollectionRef userId collectionName =
     (if userId = [] then Inl (Error ''User ID is required to access subcollections.'')
      else Inr (userId, collectionName))"

definition getUserSubcollectionDocRef :: "string \<Rightarrow> string \<Rightarrow> string \<Rightarrow> error + docpath" where
  "getUserSubcollectionDocRef userId collectionName docId =
     (if userId = [] \<or> docId = []
      then Inl (Error ''User ID and Document ID are required to access a subcollection document.'')
      else Inr (userId, collectionName, docId))"

definition getDoc :: "docpath \<Rightarrow> store \<Rightarrow> obj option" where
  "getDoc p s = map_of s p"

definition setDoc :: "docpath \<Rightarrow> obj \<Rightarrow> store \<Rightarrow> store" where
  "setDoc p d s = AList.update p d s"

text \<open>
  \<open>set(ref, data, {merge: true})\<close>: the fields of \<open>data\<close> replace or extend those of the
  stored document. (The data written this way by the services holds no nested map, so the merge
  acts field by field.)
\<close>

definition setDocMerge :: "docpath \<Rightarrow> obj \<Rightarrow> store \<Rightarrow> store" where
  "setDocMerge p d s =
     (case map_of s p of None \<Rightarrow> AList.update p d s
      | Some old \<Rightarrow> AList.update p (spread old d) s)"

text \<open>
  The keys of \<open>update\<close> data are field paths: a dot descends into a nested map, creating it
  (or replacing a value that is not a map) on the way.
\<close>

fun split_dots :: "string \<Rightarrow> string list" where
  "split_dots [] = [[]]"
| "split_dots (c # cs) =
     (if c = CHR ''.'' then [] # split_dots cs
      else (case split_dots cs of w # ws \<Rightarrow> (c # w) # ws | [] \<Rightarrow> [[c]]))"

fun set_path :: "string list \<Rightarrow> jsval \<Rightarrow> obj \<Rightarrow> obj" where
  "set_path [] v ob = ob"
| "set_path [k] v ob = with_field k v ob"
| "set_path (k # k' # ks) v ob =
     with_field k
       (JObj (set_path (k' # ks) v (case map_of ob k of Some (JObj sub) \<Rightarrow> sub | _ \<Rightarrow> []))) ob"

definition apply_update :: "obj \<Rightarrow> obj \<Rightarrow> obj" where
  "apply_update fields old = fold (\<lambda>(k, v). set_path (split_dots k) v) fields old"

text \<open>\<open>updateDoc\<close> rejects when the document does not exist.\<close>

definition updateDoc :: "docpath \<Rightarrow> obj \<Rightarrow> store \<Rightarrow> error + store" where
  "updateDoc p fields s =
     (case map_of s p of
        None \<Rightarrow> Inl (FirestoreError ''No document to update'')
      | Some old \<Rightarrow> Inr (AList.update p (apply_update fields old) s))"

text \<open>The documents of one subcollection, with their ids, in the store's order.\<close>

definition collectionDocs :: "string \<times> string \<Rightarrow> store \<Rightarrow> (docpath \<times> obj) list" where
  "collectionDocs c s = filter (\<lambda>(p, d). (fst p, fst (snd p)) = c) s"

definition docId :: "docpath \<Rightarrow> string" where
  "docId p = snd (snd p)"

section \<open>The resolution flow (useDialogFlow)\<close>

datatype DialogFlowStep =
    idle
  | processing
  | supplier_payment_details
  | new_product_details
  | prompt_link_invoice
  | prompt_link_delivery_notes
  | ready_to_save
  | error_loading

datatype DocType = deliveryNote | invoice | invoiceReceipt | receipt

text \<open>The hook's \<open>docType\<close> prop may be \<open>null\<close>.\<close>

fun advanceToNextStep :: "DocType option \<Rightarrow> DialogFlowStep \<Rightarrow> DialogFlowStep" where
  "advanceToNextStep docType supplier_payment_details = new_product_details"
| "advanceToNextStep docType new_product_details =
     (if docType = Some invoice \<or> docType = Some invoiceReceipt then prompt_link_delivery_notes
      else if docType = Some receipt then prompt_link_invoice
      else ready_to_save)"
| "advanceToNextStep docType _ = ready_to_save"

text \<open>The part of the hook's state that the handlers below read and write.\<close>

record flow_state =
  currentDialogStep :: DialogFlowStep
  isDialogFlowActive :: bool
  isLinkInvoiceSheetOpen :: bool
  isLinkDeliveryNotesSheetOpen :: bool
  finalizedSupplierId :: "string option"
  finalizedLinkedInvoiceId :: "string option"
  finalizedLinkedDeliveryNoteIds :: "string list"
  productsToDisplayForNewDetails :: "obj list"

definition handleLinkInvoice :: "string \<Rightarrow> flow_state \<Rightarrow> flow_state" where
  "handleLinkInvoice linkedInvoiceId st =
     st\<lparr>finalizedLinkedInvoiceId := Some linkedInvoiceId,
        isLinkInvoiceSheetOpen := False,
        currentDialogStep := ready_to_save,
        isDialogFlowActive := False\<rparr>"

definition handleLinkDeliveryNotes :: "string list \<Rightarrow> flow_state \<Rightarrow> flow_state" where
  "handleLinkDeliveryNotes deliveryNoteIds st =
     st\<lparr>finalizedLinkedDeliveryNoteIds := deliveryNoteIds,
        isLinkDeliveryNotesSheetOpen := False,
        currentDialogStep := ready_to_save,
        isDialogFlowActive := False\<rparr>"

text \<open>
  \<open>handleNewProductDetailsDialogComplete\<close> is the handler of the product-review dialog, the
  only one offered while the step is \<open>new_product_details\<close>.
\<close>

definition handleNewProductDetailsDialogComplete :: "DocType option \<Rightarrow> flow_state \<Rightarrow> flow_state" where
  "handleNewProductDetailsDialogComplete docType st =
     st\<lparr>productsToDisplayForNewDetails := [],
        currentDialogStep := advanceToNextStep docType new_product_details\<rparr>"

text \<open>The effect that runs after a step change: open the linking sheet or skip the step.\<close>

definition processStep :: "DocType option \<Rightarrow> flow_state \<Rightarrow> flow_state" where
  "processStep docType st =
     (if currentDialogStep st = prompt_link_invoice then
        (if docType = Some receipt \<and> truthy_str (finalizedSupplierId st)
         then st\<lparr>isLinkInvoiceSheetOpen := True\<rparr>
         else st\<lparr>currentDialogStep := advanceToNextStep docType prompt_link_invoice\<rparr>)
      else if currentDialogStep st = prompt_link_delivery_notes then
        (if (docType = Some invoice \<or> docType = Some invoiceReceipt)
            \<and> truthy_str (finalizedSupplierId st)
         then st\<lparr>isLinkDeliveryNotesSheetOpen := True\<rparr>
         else st\<lparr>currentDialogStep := advanceToNextStep docType prompt_link_delivery_notes\<rparr>)
      else st)"

section \<open>Price reconciliation (checkProductPricesBeforeSaveService)\<close>

text \<open>
  \<open>Number(x)\<close>: \<open>None\<close> is \<open>NaN\<close>. \<open>unitPrice\<close> is declared a number; what JavaScript
  makes of another kind of value (a string, an array, an object) is the parameter
  \<open>toNumber\<close>.
\<close>

fun Number_js :: "(jsval \<Rightarrow> rat option) \<Rightarrow> jsval option \<Rightarrow> rat option" where
  "Number_js toNumber None = None"
| "Number_js toNumber (Some JNull) = Some 0"
| "Number_js toNumber (Some (JBool b)) = Some (if b then 1 else 0)"
| "Number_js toNumber (Some (JNum r)) = Some r"
| "Number_js toNumber (Some v) = toNumber v"

text \<open>\<open>Number(x) || 0\<close>.\<close>

definition number_or_zero :: "(jsval \<Rightarrow> rat option) \<Rightarrow> jsval option \<Rightarrow> rat" where
  "number_or_zero toNumber x = (case Number_js toNumber x of Some r \<Rightarrow> r | None \<Rightarrow> 0)"

text \<open>\<open>productsToCheck.map((p) => p.catalogNumber).filter((cn) => !!cn)\<close>, and the same for barcodes.\<close>

definition truthyValues :: "string \<Rightarrow> obj list \<Rightarrow> jsval list" where
  "truthyValues fld ps = map the (filter truthy (map (\<lambda>p. field p fld) ps))"

type_synonym productMap = "jsval \<Rightarrow> obj option"

definition addProductToMap :: "obj \<Rightarrow> productMap \<Rightarrow> productMap" where
  "addProductToMap product m =
     (let m1 = (if truthy (field product ''catalogNumber'')
                   \<and> m (the (field product ''catalogNumber'')) = None
                then m(the (field product ''catalogNumber'') \<mapsto> product) else m)
      in if truthy (field product ''barcode'') \<and> m1 (the (field product ''barcode'')) = None
         then m1(the (field product ''barcode'') \<mapsto> product) else m1)"

text \<open>\<open>getDocs(query(inventoryRef, where(field, "in", chunk)))\<close>, as the documents' data.\<close>

definition queryIn :: "string \<times> string \<Rightarrow> string \<Rightarrow> jsval list \<Rightarrow> store \<Rightarrow> obj list" where
  "queryIn collectionRef fld chunk s =
     map snd (filter (\<lambda>(p, d). case field d fld of Some v \<Rightarrow> v \<in> set chunk | None \<Rightarrow> False)
                (collectionDocs collectionRef s))"

definition slice :: "nat \<Rightarrow> nat \<Rightarrow> 'a list \<Rightarrow> 'a list" where
  "slice i j xs = take (j - i) (drop i xs)"

text \<open>
  The loop of \<open>fetchInChunks\<close>, from index \<open>i\<close>. Besides the map it fills, it returns the
  "in" queries it has sent to the store, in order.
\<close>

type_synonym inQuery = "string \<times> jsval list"

function fetchInChunks ::
  "string \<times> string \<Rightarrow> store \<Rightarrow> string \<Rightarrow> jsval list \<Rightarrow> nat
     \<Rightarrow> productMap \<times> inQuery list \<Rightarrow> productMap \<times> inQuery list" where
  "fetchInChunks inventoryRef s fld values i (m, sent) =
     (if i < length values then
        (let chunk = slice i (i + 10) values;
             querySnapshot = queryIn inventoryRef fld chunk s
         in fetchInChunks inventoryRef s fld values (i + 10)
              (fold addProductToMap querySnapshot m, sent @ [(fld, chunk)]))
      else (m, sent))"
  by pat_completeness auto
termination
  by (relation "measure (\<lambda>(inventoryRef, s, fld, values, i, acc). length values - i)") auto

declare fetchInChunks.simps [simp del]

record PriceCheckResult =
  productsToSaveDirectly :: "obj list"
  priceDiscrepancies :: "obj list"

text \<open>\<open>{...product, id: existingProduct.id}\<close>, where the id may be \<open>undefined\<close>.\<close>

definition with_id_of :: "obj \<Rightarrow> obj \<Rightarrow> obj" where
  "with_id_of existingProduct product =
     (case field existingProduct ''id'' of
        Some v \<Rightarrow> with_field ''id'' v product
      | None \<Rightarrow> without_field ''id'' product)"

text \<open>
  \<open>(product.catalogNumber && map.get(product.catalogNumber)) ||
   (product.barcode && map.get(product.barcode))\<close>
\<close>

definition lookupKey :: "productMap \<Rightarrow> jsval option \<Rightarrow> obj option" where
  "lookupKey m k = (if truthy k then m (the k) else None)"

definition findExisting :: "productMap \<Rightarrow> obj \<Rightarrow> obj option" where
  "findExisting m product =
     (case lookupKey m (field product ''catalogNumber'') of
        Some e \<Rightarrow> Some e
      | None \<Rightarrow> lookupKey m (field product ''barcode''))"

text \<open>One round of the \<open>for (const product of productsToCheck)\<close> loop.\<close>

definition priceCheckStep ::
  "(jsval \<Rightarrow> rat option) \<Rightarrow> productMap \<Rightarrow> obj \<Rightarrow> PriceCheckResult \<Rightarrow> PriceCheckResult" where
  "priceCheckStep toNumber m product r =
     (case findExisting m product of
        Some existingProduct \<Rightarrow>
          (let existingUnitPrice = number_or_zero toNumber (field existingProduct ''unitPrice'');
               newUnitPrice = number_or_zero toNumber (field product ''unitPrice'')
           in if \<bar>existingUnitPrice - newUnitPrice\<bar> > 1 / 1000
              then r\<lparr>priceDiscrepancies := priceDiscrepancies r @
                     [with_field ''newUnitPrice'' (JNum newUnitPrice)
                        (with_field ''existingUnitPrice'' (JNum existingUnitPrice)
                           (with_id_of existingProduct product))]\<rparr>
              else r\<lparr>productsToSaveDirectly := productsToSaveDirectly r @
                     [with_id_of existingProduct product]\<rparr>)
      | None \<Rightarrow> r\<lparr>productsToSaveDirectly := productsToSaveDirectly r @ [product]\<rparr>)"

text \<open>The service returns its result; the second component is the list of queries it sent.\<close>

definition checkProductPricesBeforeSaveService ::
  "(jsval \<Rightarrow> rat option) \<Rightarrow> obj list \<Rightarrow> string \<Rightarrow> store
     \<Rightarrow> error + (PriceCheckResult \<times> inQuery list)" where
  "checkProductPricesBeforeSaveService toNumber productsToCheck userId s =
     (case getUserSubcollectionRef userId INVENTORY_SUBCOLLECTION of
        Inl e \<Rightarrow> Inl e
      | Inr inventoryRef \<Rightarrow>
          (let catalogNumbers = truthyValues ''catalogNumber'' productsToCheck;
               barcodes = truthyValues ''barcode'' productsToCheck
           in if length catalogNumbers = 0 \<and> length barcodes = 0
              then Inr (\<lparr>productsToSaveDirectly = productsToCheck, priceDiscrepancies = []\<rparr>, [])
              else
                (let acc0 = (Map.empty, []);
                     acc1 = (if length catalogNumbers > 0
                             then fetchInChunks inventoryRef s ''catalogNumber'' catalogNumbers 0 acc0
                             else acc0);
                     acc2 = (if length barcodes > 0
                             then fetchInChunks inventoryRef s ''barcode'' barcodes 0 acc1
                             else acc1);
                     existingProductsMap = fst acc2
                 in Inr (fold (priceCheckStep toNumber existingProductsMap) productsToCheck
                           \<lparr>productsToSaveDirectly = [], priceDiscrepancies = []\<rparr>,
                         snd acc2))))"

text \<open>A line item that carries neither a catalog number nor a barcode.\<close>

definition keyless :: "obj \<Rightarrow> bool" where
  "keyless p \<longleftrightarrow> \<not> truthy (field p ''catalogNumber'') \<and> \<not> truthy (field p ''barcode'')"

subsection \<open>Sample inventories and line items\<close>

definition no_coercion :: "jsval \<Rightarrow> rat option" where
  "no_coercion v = None"

definition sample_inventory :: store where
  "sample_inventory =
     [((''u1'', ''inventoryProducts'', ''p1''),
       [(''id'', JStr ''p1''), (''userId'', JStr ''u1''), (''name'', JStr ''Stored item''),
        (''catalogNumber'', JStr ''ZZZ''), (''barcode'', JStr ''123''),
        (''unitPrice'', JNum 5), (''quantity'', JNum 7)])]"

definition item_A :: obj where
  "item_A = [(''id'', JStr ''prod-temp-1''), (''userId'', JStr ''u1''), (''name'', JStr ''A''),
             (''catalogNumber'', JStr ''123''), (''unitPrice'', JNum 9), (''quantity'', JNum 2)]"

definition item_B :: obj where
  "item_B = [(''id'', JStr ''prod-temp-2''), (''userId'', JStr ''u1''), (''name'', JStr ''B''),
             (''barcode'', JStr ''123''), (''unitPrice'', JNum 5), (''quantity'', JNum 1)]"

definition item_plain :: obj where
  "item_plain = [(''id'', JStr ''prod-temp-3''), (''userId'', JStr ''u1''),
                 (''name'', JStr ''loose goods''), (''unitPrice'', JNum 9), (''quantity'', JNum 1)]"



section \<open>The POS adapters and the server actions around them\<close>

text \<open>
  An adapter talks to an external system. The state of the world outside the program (the
  external system, the network) is the type parameter \<open>'x\<close>. A method
  takes the state and returns the new one; \<open>Inl msg\<close> is the method throwing an error with
  message \<open>msg\<close>. \<open>createTaxInvoice\<close> is optional in the interface. The result type of
  the upserts is \<open>{success, message, externalId?}\<close>, where a missing or \<open>null\<close> external
  id is \<open>None\<close>.
\<close>

record pos_result =
  success :: bool
  message :: string
  externalId :: "string option"

record 'x adapter =
  systemName :: string
  upsertProduct :: "obj \<Rightarrow> 'x \<Rightarrow> (string + pos_result) \<times> 'x"
  upsertSupplier :: "obj \<Rightarrow> 'x \<Rightarrow> (string + pos_result) \<times> 'x"
  createTaxInvoice :: "(obj \<Rightarrow> 'x \<Rightarrow> (string + string option) \<times> 'x) option"

text \<open>
  A call that the finalizer sends to the store outside a transaction, each with its own
  \<open>await\<close>: a read of one document or an update of one document.
\<close>

datatype storeRequest = GetDocRequest docpath | UpdateDocRequest docpath obj

text \<open>
  What the services take from outside: the ids that \<open>doc(collectionRef)\<close> hands out during
  a call, in order; the clock; the date conversion (which rests on the date library); the
  behaviour of the Caspit adapter's methods (HTTP calls); and the answers of the store.

  The store's side of a transaction has three parts. \<open>storeRejects\<close> are the writes that the
  store refuses for good at commit (security rules, quota): they abort the transaction.
  \<open>contention a = Some (qs', s')\<close> says that the commit of attempt number \<open>a\<close> (from 0)
  meets data that other writers have changed: the store answers with a retryable error, the
  store is then \<open>s'\<close>, as those writers left it, and a further attempt finds \<open>qs'\<close> with its
  query and \<open>s'\<close> with its transactional reads. \<open>maxAttempts\<close> is the number of attempts that
  \<open>runTransaction\<close> makes at most (an option of the SDK, 5 unless set otherwise).

  \<open>storeCall\<close> is the answer of the store to a call made outside a transaction: \<open>Some e\<close>
  when the call fails with error \<open>e\<close> (network, permissions, quota) and nothing is read or
  written. It depends on the request and on the state of the outside world, which it may
  change, so that any sequence of failures can be described.
\<close>

datatype writeOp = TxSet docpath obj | TxSetMerge docpath obj | TxUpdate docpath obj

record 'x env =
  autoId :: "nat \<Rightarrow> string"
  nowIso :: string
  convertToTimestampIfValid :: "jsval \<Rightarrow> jsval"
  caspit :: "'x adapter"
  storeRejects :: "writeOp \<Rightarrow> bool"
  contention :: "nat \<Rightarrow> (store \<times> store) option"
  maxAttempts :: nat
  storeCall :: "storeRequest \<Rightarrow> 'x \<Rightarrow> error option \<times> 'x"

text \<open>Nested property access \<open>a?.b?.c\<close>; a value that is not an object has no properties here.\<close>

fun getIn :: "obj \<Rightarrow> string list \<Rightarrow> jsval option" where
  "getIn ob [] = Some (JObj ob)"
| "getIn ob [k] = map_of ob k"
| "getIn ob (k # k' # ks) =
     (case map_of ob k of Some (JObj sub) \<Rightarrow> getIn sub (k' # ks) | _ \<Rightarrow> None)"

text \<open>\<open>config.systemId\<close>, declared a string; another kind of value is read as absent.\<close>

definition systemIdOf :: "obj \<Rightarrow> string option" where
  "systemIdOf config = (case field config ''systemId'' of Some (JStr sid) \<Rightarrow> Some sid | _ \<Rightarrow> None)"

text \<open>A text between single quotes.\<close>

definition quoted :: "string \<Rightarrow> string" where
  "quoted t = CHR 0x27 # t @ [CHR 0x27]"

text \<open>
  The Hashavshevet adapter implements neither upsert and has no \<open>createTaxInvoice\<close>. (Its
  display name is given here without its Hebrew part.)
\<close>

definition HashavshevetAdapter :: "'x adapter" where
  "HashavshevetAdapter =
     \<lparr>systemName = ''Hashavshevet'',
      upsertProduct =
        (\<lambda>p x. (Inl (''Method '' @ quoted ''upsertProduct''
                       @ '' not implemented for Hashavshevet.''), x)),
      upsertSupplier =
        (\<lambda>p x. (Inl (''Method '' @ quoted ''upsertSupplier''
                       @ '' not implemented for Hashavshevet.''), x)),
      createTaxInvoice = None\<rparr>"

text \<open>The constructor of the Caspit adapter checks the configuration.\<close>

definition CaspitAdapter :: "'x env \<Rightarrow> obj \<Rightarrow> error + 'x adapter" where
  "CaspitAdapter env config =
     (if systemIdOf config \<noteq> Some ''caspit''
         \<or> \<not> truthy (getIn config [''credentials'', ''user''])
         \<or> \<not> truthy (getIn config [''credentials'', ''pwd''])
         \<or> \<not> truthy (getIn config [''credentials'', ''osekMorshe''])
      then Inl (Error ''Caspit credentials are not complete or configuration is invalid.'')
      else Inr (caspit env))"

definition getPosAdapter :: "'x env \<Rightarrow> string \<Rightarrow> obj \<Rightarrow> error + 'x adapter" where
  "getPosAdapter env systemId credentials =
     (if systemId = ''caspit'' then CaspitAdapter env credentials
      else if systemId = ''hashavshevet'' then Inr HashavshevetAdapter
      else Inl (Error (''POS adapter not found for system: '' @ systemId)))"

definition failed :: "string \<Rightarrow> pos_result" where
  "failed msg = \<lparr>success = False, message = msg, externalId = None\<rparr>"

text \<open>The server actions catch whatever is thrown inside them and report it as a result.\<close>

definition upsertPosProductAction :: "'x env \<Rightarrow> obj \<Rightarrow> obj \<Rightarrow> 'x \<Rightarrow> pos_result \<times> 'x" where
  "upsertPosProductAction env config appProduct x =
     (if \<not> truthy_str (systemIdOf config)
      then (failed ''POS system ID is missing from the configuration.'', x)
      else (case getPosAdapter env (the (systemIdOf config)) config of
              Inl e \<Rightarrow> (failed (error_message e), x)
            | Inr adapter \<Rightarrow>
                (case upsertProduct adapter appProduct x of
                   (Inl msg, x') \<Rightarrow> (failed msg, x')
                 | (Inr result, x') \<Rightarrow> (result, x'))))"

definition upsertPosSupplierAction :: "'x env \<Rightarrow> obj \<Rightarrow> obj \<Rightarrow> 'x \<Rightarrow> pos_result \<times> 'x" where
  "upsertPosSupplierAction env config supplier x =
     (if \<not> truthy_str (systemIdOf config)
      then (failed ''POS system ID is missing from the configuration.'', x)
      else (case getPosAdapter env (the (systemIdOf config)) config of
              Inl e \<Rightarrow> (failed (error_message e), x)
            | Inr adapter \<Rightarrow>
                (case upsertSupplier adapter supplier x of
                   (Inl msg, x') \<Rightarrow> (failed msg, x')
                 | (Inr result, x') \<Rightarrow> (result, x'))))"

definition createPosExpenseAction :: "'x env \<Rightarrow> obj \<Rightarrow> obj \<Rightarrow> 'x \<Rightarrow> pos_result \<times> 'x" where
  "createPosExpenseAction env config document x =
     (if \<not> truthy_str (systemIdOf config)
      then (failed ''POS system ID is missing from the configuration.'', x)
      else (case getPosAdapter env (the (systemIdOf config)) config of
              Inl e \<Rightarrow> (failed (error_message e), x)
            | Inr adapter \<Rightarrow>
                (case createTaxInvoice adapter of
                   None \<Rightarrow>
                     (failed (''The '' @ quoted (systemName adapter)
                                @ '' adapter does not support creating expenses.''), x)
                 | Some create \<Rightarrow>
                     (case create document x of
                        (Inl msg, x') \<Rightarrow> (failed msg, x')
                      | (Inr ext, x') \<Rightarrow>
                          (\<lparr>success = True,
                            message = ''Expense created successfully in '' @ systemName adapter @ ''.'',
                            externalId = ext\<rparr>, x')))))"

section \<open>The transactional finalizer (finalizeSaveProductsService)\<close>

text \<open>
  The input of the service. Logging, the check that the Firestore handle is initialised and
  the JSON round trip of the values handed to the server actions are left out: they change
  neither the store nor the result.
\<close>

record FinalizeInvoiceData =
  products :: "obj list"
  originalFileName :: string
  docType :: DocType
  userId :: string
  existingDocumentId :: "string option"
  invoiceNumber :: "string option"
  supplierName :: "string option"
  totalAmount :: "rat option"
  paymentDueDate :: jsval
  invoiceDate :: jsval
  paymentMethod :: "string option"
  originalImagePreviewUri :: "string option"
  compressedImageForFinalRecordUri :: "string option"
  rawScanResultJson :: "string option"
  paymentTerms :: "string option"
  osekMorshe :: "string option"

definition docTypeName :: "DocType \<Rightarrow> string" where
  "docTypeName t =
     (case t of deliveryNote \<Rightarrow> ''deliveryNote'' | invoice \<Rightarrow> ''invoice''
      | invoiceReceipt \<Rightarrow> ''invoiceReceipt'' | receipt \<Rightarrow> ''receipt'')"

subsection \<open>Transactions\<close>

text \<open>
  \<open>transaction.set\<close>, \<open>transaction.update\<close> and \<open>transaction.set\<close> with merge only stage
  a write. At commit the store applies the staged writes in order, and all of them or none: an
  \<open>update\<close> of a document that does not exist, or a write the store refuses, aborts the
  commit and leaves the store as it was.
\<close>

fun apply_write :: "writeOp \<Rightarrow> store \<Rightarrow> store option" where
  "apply_write (TxSet p d) s = Some (setDoc p d s)"
| "apply_write (TxSetMerge p d) s = Some (setDocMerge p d s)"
| "apply_write (TxUpdate p changes) s =
     (case updateDoc p changes s of Inl e \<Rightarrow> None | Inr s' \<Rightarrow> Some s')"

fun apply_writes :: "writeOp list \<Rightarrow> store \<Rightarrow> store option" where
  "apply_writes [] s = Some s"
| "apply_writes (w # ws) s =
     (case apply_write w s of None \<Rightarrow> None | Some s' \<Rightarrow> apply_writes ws s')"

definition commit :: "(writeOp \<Rightarrow> bool) \<Rightarrow> writeOp list \<Rightarrow> store \<Rightarrow> store option" where
  "commit rejects ws s = (if list_ex rejects ws then None else apply_writes ws s)"

subsection \<open>The body of the transaction\<close>

text \<open>
  \<open>counter || 0\<close> for a supplier counter that is a number, as declared, or is missing or
  \<open>null\<close>.
\<close>

definition numOr0 :: "jsval option \<Rightarrow> rat" where
  "numOr0 v = (case v of Some (JNum r) \<Rightarrow> r | _ \<Rightarrow> 0)"

text \<open>
  The state of the \<open>for (const product of products)\<close> loop: the number of ids drawn so far,
  the writes staged so far and \<open>savedOrUpdatedProducts\<close>.
\<close>

type_synonym loopState = "nat \<times> writeOp list \<times> obj list"

definition createProduct :: "'x env \<Rightarrow> string \<Rightarrow> obj \<Rightarrow> loopState \<Rightarrow> loopState" where
  "createProduct env uid productData st =
     (case st of (n, ws, saved) \<Rightarrow>
        (let productRef = (uid, INVENTORY_SUBCOLLECTION, autoId env n);
             newProductData =
               with_field ''isActive'' (JBool True)
                 (with_field ''lastUpdated'' JServerTimestamp
                    (with_field ''userId'' (JStr uid)
                       (with_field ''id'' (JStr (docId productRef)) productData)))
         in (Suc n, ws @ [TxSet productRef newProductData],
             saved @ [without_field ''lastUpdated'' newProductData])))"

definition updateProduct :: "string \<Rightarrow> string \<Rightarrow> obj \<Rightarrow> loopState \<Rightarrow> error + loopState" where
  "updateProduct uid oid productData st =
     (case st of (n, ws, saved) \<Rightarrow>
        (case getUserSubcollectionDocRef uid INVENTORY_SUBCOLLECTION oid of
           Inl e \<Rightarrow> Inl e
         | Inr productRef \<Rightarrow>
             Inr (n,
                  ws @ [TxUpdate productRef
                          (with_field ''isActive'' (JBool True)
                             (with_field ''lastUpdated'' JServerTimestamp productData))],
                  saved @ [with_field ''userId'' (JStr uid)
                             (with_field ''id'' (JStr oid) productData)])))"

text \<open>
  One round of the loop. A truthy \<open>_originalId\<close> that is not a string has no
  \<open>startsWith\<close>: the call throws a TypeError.
\<close>

definition productStep :: "'x env \<Rightarrow> string \<Rightarrow> obj \<Rightarrow> loopState \<Rightarrow> error + loopState" where
  "productStep env uid product st =
     (let originalId = field product ''_originalId'';
          productData = without_field ''_originalId'' product
      in if truthy originalId then
           (case originalId of
              Some (JStr oid) \<Rightarrow>
                (if \<not> prefix ''prod-temp-'' oid then updateProduct uid oid productData st
                 else Inr (createProduct env uid productData st))
            | _ \<Rightarrow> Inl (TypeError ''_originalId.startsWith is not a function''))
         else Inr (createProduct env uid productData st))"

fun productLoop :: "'x env \<Rightarrow> string \<Rightarrow> obj list \<Rightarrow> loopState \<Rightarrow> error + loopState" where
  "productLoop env uid [] st = Inr st"
| "productLoop env uid (product # rest) st =
     (case productStep env uid product st of
        Inl e \<Rightarrow> Inl e
      | Inr st' \<Rightarrow> productLoop env uid rest st')"

text \<open>The supplier found by name: \<open>where("name", "==", supplierName), limit(1)\<close>.\<close>

definition supplierQuery :: "string \<Rightarrow> string \<Rightarrow> store \<Rightarrow> (docpath \<times> obj) option" where
  "supplierQuery uid name s =
     (case filter (\<lambda>(p, d). field d ''name'' = Some (JStr name))
             (collectionDocs (uid, SUPPLIERS_SUBCOLLECTION) s) of
        [] \<Rightarrow> None
      | existingSupplierDoc # _ \<Rightarrow> Some existingSupplierDoc)"

definition paymentStatusFor :: "DocType \<Rightarrow> string" where
  "paymentStatusFor t = (if t = receipt \<or> t = invoiceReceipt then ''paid'' else ''unpaid'')"

definition invoiceData ::
  "'x env \<Rightarrow> FinalizeInvoiceData \<Rightarrow> obj \<Rightarrow> string \<Rightarrow> string \<Rightarrow> obj list \<Rightarrow> obj" where
  "invoiceData env d pendingDocData invoiceId supplierId saved =
     [(''fileType'', js_or (field pendingDocData ''fileType'') (JStr ''unknown'')),
      (''fileSize'', js_or (field pendingDocData ''fileSize'') (JNum 0)),
      (''imageUri'', js_or (field pendingDocData ''imageUri'') JNull),
      (''compressedImageUri'', js_or (field pendingDocData ''compressedImageUri'') JNull),
      (''uploadTime'', js_or (field pendingDocData ''uploadTime'') JServerTimestamp),
      (''id'', JStr invoiceId),
      (''userId'', JStr (userId d)),
      (''originalFileName'', JStr (originalFileName d)),
      (''generatedFileName'',
         JStr (the (supplierName d) @ ''_''
               @ (if truthy_str (invoiceNumber d) then the (invoiceNumber d) else ''N_A''))),
      (''status'', JStr ''completed''),
      (''documentType'', JStr (docTypeName (docType d))),
      (''supplierName'', JStr (the (supplierName d))),
      (''supplierId'', JStr supplierId),
      (''invoiceNumber'', str_or_null (invoiceNumber d)),
      (''date'', convertToTimestampIfValid env (invoiceDate d)),
      (''totalAmount'', JNum (case totalAmount d of Some a \<Rightarrow> a | None \<Rightarrow> 0)),
      (''paymentMethod'', str_or_null (paymentMethod d)),
      (''dueDate'', convertToTimestampIfValid env (paymentDueDate d)),
      (''paymentStatus'', JStr (paymentStatusFor (docType d))),
      (''products'', JArr (map JObj saved)),
      (''isArchived'', JBool False),
      (''syncedPos'', JNull),
      (''originalImagePreviewUri'', js_or (field pendingDocData ''originalImagePreviewUri'') JNull),
      (''compressedImageForFinalRecordUri'',
         js_or (field pendingDocData ''compressedImageForFinalRecordUri'') JNull),
      (''linkedDeliveryNoteIds'', JArr []),
      (''linkedInvoiceId'', JNull),
      (''paymentTerms'', str_or_null (paymentTerms d)),
      (''osekMorshe'', str_or_null (osekMorshe d)),
      (''rawScanResultJson'', str_or_null (rawScanResultJson d)),
      (''errorMessage'', JNull),
      (''paymentReceiptImageUri'', JNull),
      (''taxAmount'', JNull),
      (''subtotalAmount'', JNull)]"

text \<open>
  What one run of the function passed to \<open>runTransaction\<close> leaves behind: the writes
  staged on the transaction, the variables \<open>finalInvoiceRecord\<close>,
  \<open>savedOrUpdatedProducts\<close> and \<open>finalSupplierId\<close> of the enclosing service, and the
  number of ids it has drawn.
\<close>

record txResult =
  staged :: "writeOp list"
  finalInvoiceRecord :: obj
  savedOrUpdatedProducts :: "obj list"
  finalSupplierId :: string
  idsDrawn :: nat

text \<open>
  The function passed to \<open>runTransaction\<close>. The supplier lookup by name is a plain
  \<open>getDocs\<close>, not a transactional read: it sees the store \<open>qs\<close>, which another writer may
  have changed before the transaction reads \<open>s\<close>. Both kinds of read are answered: these
  two stores are what the function sees. The caller has checked that the user id and the
  supplier name are not empty.

  The array \<open>savedOrUpdatedProducts\<close> is declared by the service, outside the function,
  which only pushes onto it: \<open>saved0\<close> is its content when the function starts. The
  document that the function stages takes its \<open>products\<close> from the array.
\<close>

definition transactionBody ::
  "'x env \<Rightarrow> FinalizeInvoiceData \<Rightarrow> obj list \<Rightarrow> store \<Rightarrow> store \<Rightarrow> error + txResult" where
  "transactionBody env d saved0 qs s =
     (let uid = userId d;
          name = the (supplierName d);
          pendingDocData =
            (if truthy_str (existingDocumentId d)
             then (case getDoc (uid, DOCUMENTS_SUBCOLLECTION, the (existingDocumentId d)) s of
                     Some docData \<Rightarrow> docData | None \<Rightarrow> [])
             else []);
          existingSupplierDoc = supplierQuery uid name qs
      in case (case existingSupplierDoc of
                 None \<Rightarrow> Inr None
               | Some (ref, _) \<Rightarrow>
                   (case getDoc ref s of
                      None \<Rightarrow> Inl (Error
                        ''Supplier was deleted between the initial query and the transaction start.'')
                    | Some supplierData \<Rightarrow> Inr (Some (ref, supplierData)))) of
           Inl e \<Rightarrow> Inl e
         | Inr supplierDocInTransaction \<Rightarrow>
            (let (n0, supplierId, supplierWrite) =
                   (case supplierDocInTransaction of
                      Some (supplierRef, supplierData) \<Rightarrow>
                        (0, docId supplierRef,
                         TxUpdate supplierRef
                           [(''totalSpent'',
                               JNum (numOr0 (field supplierData ''totalSpent'')
                                     + (case totalAmount d of Some a \<Rightarrow> a | None \<Rightarrow> 0))),
                            (''invoiceCount'',
                               JNum (numOr0 (field supplierData ''invoiceCount'') + 1)),
                            (''lastActivityDate'', JServerTimestamp)])
                    | None \<Rightarrow>
                        (Suc 0, autoId env 0,
                         TxSet (uid, SUPPLIERS_SUBCOLLECTION, autoId env 0)
                           [(''id'', JStr (autoId env 0)),
                            (''userId'', JStr uid),
                            (''name'', JStr name),
                            (''totalSpent'', JNum (case totalAmount d of Some a \<Rightarrow> a | None \<Rightarrow> 0)),
                            (''invoiceCount'', JNum 1),
                            (''createdAt'', JServerTimestamp),
                            (''lastActivityDate'', JServerTimestamp),
                            (''paymentTerms'', str_or_null (paymentTerms d)),
                            (''osekMorshe'', str_or_null (osekMorshe d)),
                            (''posRefs'', JObj [])]))
             in case productLoop env uid (products d) (n0, [supplierWrite], saved0) of
                  Inl e \<Rightarrow> Inl e
                | Inr (n1, ws, saved) \<Rightarrow>
                    (let invoiceId = (if truthy_str (existingDocumentId d)
                                      then the (existingDocumentId d) else autoId env n1);
                         finalInvoiceRef = (uid, DOCUMENTS_SUBCOLLECTION, invoiceId);
                         newRecord = invoiceData env d pendingDocData invoiceId supplierId saved
                     in Inr \<lparr>staged = ws @ [TxSetMerge finalInvoiceRef newRecord],
                             finalInvoiceRecord = newRecord,
                             savedOrUpdatedProducts = saved,
                             finalSupplierId = supplierId,
                             idsDrawn = (if truthy_str (existingDocumentId d)
                                         then n1 else Suc n1)\<rparr>)))"

subsection \<open>Running the transaction\<close>

text \<open>The environment after \<open>k\<close> ids have been drawn.\<close>

definition idsFrom :: "nat \<Rightarrow> 'x env \<Rightarrow> 'x env" where
  "idsFrom k env = env\<lparr>autoId := (\<lambda>n. autoId env (k + n))\<rparr>"

text \<open>
  \<open>runTransaction\<close> of the SDK runs the function, then commits what it has staged. An error
  thrown by the function that is not an error of the store (here every error of the body is a
  plain \<open>Error\<close> or \<open>TypeError\<close>) ends the call. When the commit meets contention, the
  function is run again from the start, on a fresh transaction, as long as attempts remain;
  what the aborted attempt has staged is dropped, but its pushes onto
  \<open>savedOrUpdatedProducts\<close> stay, since the array lives outside the function. A write that
  the store refuses for good, or an update of a document that does not exist, ends the call.

  \<open>attemptsRemaining\<close> counts the attempts left after this one, \<open>a\<close> is the number of this
  attempt, \<open>k\<close> the number of ids drawn by the attempts before it and \<open>saved\<close> the array
  as they left it. The result holds the store after the call.
\<close>

fun transactionAttempts ::
  "'x env \<Rightarrow> FinalizeInvoiceData \<Rightarrow> nat \<Rightarrow> nat \<Rightarrow> nat \<Rightarrow> obj list \<Rightarrow> store \<Rightarrow> store
     \<Rightarrow> (error + txResult) \<times> store" where
  "transactionAttempts env d attemptsRemaining a k saved qs s =
     (case transactionBody (idsFrom k env) d saved qs s of
        Inl e \<Rightarrow> (Inl e, s)
      | Inr r \<Rightarrow>
          (case contention env a of
             Some (qs', s') \<Rightarrow>
               (case attemptsRemaining of
                  0 \<Rightarrow> (Inl (FirestoreError ''The transaction was aborted by contention.''), s')
                | Suc n \<Rightarrow>
                    transactionAttempts env d n (Suc a) (k + idsDrawn r)
                      (savedOrUpdatedProducts r) qs' s')
           | None \<Rightarrow>
               (case commit (storeRejects env) (staged r) s of
                  None \<Rightarrow> (Inl (FirestoreError ''The transaction was aborted.''), s)
                | Some s' \<Rightarrow> (Inr r, s'))))"

declare transactionAttempts.simps [simp del]

definition runTransaction ::
  "'x env \<Rightarrow> FinalizeInvoiceData \<Rightarrow> store \<Rightarrow> store \<Rightarrow> (error + txResult) \<times> store" where
  "runTransaction env d qs s = transactionAttempts env d (maxAttempts env - 1) 0 0 [] qs s"

subsection \<open>The POS relay that follows the commit\<close>

text \<open>
  The calls to the store that follow the commit are no part of the transaction: each is a
  request of its own, which the store may fail to answer. \<open>awaitGetDoc\<close> is
  \<open>await getDoc(ref)\<close> and \<open>awaitUpdateDoc\<close> is \<open>await updateDoc(ref, changes)\<close>;
  \<open>Inl e\<close> is the rejected promise.
\<close>

definition awaitGetDoc :: "'x env \<Rightarrow> docpath \<Rightarrow> store \<times> 'x \<Rightarrow> (error + obj option) \<times> 'x" where
  "awaitGetDoc env ref sx =
     (case sx of (s, x) \<Rightarrow>
        (case storeCall env (GetDocRequest ref) x of
           (Some e, x') \<Rightarrow> (Inl e, x')
         | (None, x') \<Rightarrow> (Inr (getDoc ref s), x')))"

definition awaitUpdateDoc ::
  "'x env \<Rightarrow> docpath \<Rightarrow> obj \<Rightarrow> store \<times> 'x \<Rightarrow> (error + unit) \<times> store \<times> 'x" where
  "awaitUpdateDoc env ref changes sx =
     (case sx of (s, x) \<Rightarrow>
        (case storeCall env (UpdateDocRequest ref changes) x of
           (Some e, x') \<Rightarrow> (Inl e, s, x')
         | (None, x') \<Rightarrow>
             (case updateDoc ref changes s of
                Inl e \<Rightarrow> (Inl e, s, x')
              | Inr s' \<Rightarrow> (Inr (), s', x'))))"

text \<open>The settings of the user: an empty object when there are none.\<close>

definition getUserSettingsService :: "string \<Rightarrow> store \<Rightarrow> error + obj" where
  "getUserSettingsService uid s =
     (case getUserSubcollectionDocRef uid USER_SETTINGS_SUBCOLLECTION ''userProfile'' of
        Inl e \<Rightarrow> Inl e
      | Inr settingsRef \<Rightarrow>
          (case getDoc settingsRef s of Some settings \<Rightarrow> Inr settings | None \<Rightarrow> Inr []))"

text \<open>The same read as the finalizer awaits it after the commit.\<close>

definition awaitUserSettings :: "'x env \<Rightarrow> string \<Rightarrow> store \<times> 'x \<Rightarrow> (error + obj) \<times> 'x" where
  "awaitUserSettings env uid sx =
     (case sx of (s, x) \<Rightarrow>
        (case getUserSubcollectionDocRef uid USER_SETTINGS_SUBCOLLECTION ''userProfile'' of
           Inl e \<Rightarrow> (Inl e, x)
         | Inr settingsRef \<Rightarrow>
             (case awaitGetDoc env settingsRef (s, x) of
                (Inl e, x') \<Rightarrow> (Inl e, x')
              | (Inr (Some settings), x') \<Rightarrow> (Inr settings, x')
              | (Inr None, x') \<Rightarrow> (Inr [], x'))))"

text \<open>\<open>`${config.systemId}`\<close>.\<close>

definition systemIdText :: "obj \<Rightarrow> string" where
  "systemIdText config = (case systemIdOf config of Some sid \<Rightarrow> sid | None \<Rightarrow> ''undefined'')"

definition posRef :: "'x env \<Rightarrow> obj \<Rightarrow> string \<Rightarrow> jsval" where
  "posRef env config ext =
     JObj [(''systemId'', str_nullable (systemIdOf config)),
           (''externalId'', JStr ext),
           (''lastSync'', JStr (nowIso env))]"

text \<open>
  Step 1 of the relay: the supplier's external id, taken from its \<open>posRefs\<close> or obtained
  from the adapter and written back. A failed result of the supplier upsert is thrown.
\<close>

definition posSyncSupplier ::
  "'x env \<Rightarrow> obj \<Rightarrow> docpath \<Rightarrow> obj \<Rightarrow> store \<times> 'x \<Rightarrow> (error + jsval option) \<times> store \<times> 'x" where
  "posSyncSupplier env config supplierDocRef supplierData sx =
     (case sx of (s, x) \<Rightarrow>
        (let posSupplierId =
               (if truthy_str (systemIdOf config)
                then getIn supplierData [''posRefs'', the (systemIdOf config), ''externalId'']
                else None)
         in if \<not> truthy posSupplierId then
              (case upsertPosSupplierAction env config supplierData x of
                 (contactResult, x') \<Rightarrow>
                   (if success contactResult \<and> truthy_str (externalId contactResult) then
                      (case awaitUpdateDoc env supplierDocRef
                              [(''posRefs.'' @ systemIdText config,
                                posRef env config (the (externalId contactResult)))] (s, x') of
                         (Inl e, s', x'') \<Rightarrow> (Inl e, s', x'')
                       | (Inr u, s', x'') \<Rightarrow>
                           (Inr (Some (JStr (the (externalId contactResult)))), s', x''))
                    else (Inl (Error (''POS supplier sync failed: '' @ message contactResult)),
                          s, x')))
            else (Inr posSupplierId, s, x)))"

text \<open>
  Step 2: the loop over \<open>savedOrUpdatedProducts\<close>. A failed result of a product upsert is
  skipped: the \<open>if\<close> has no \<open>else\<close>.
\<close>

fun posSyncProducts ::
  "'x env \<Rightarrow> obj \<Rightarrow> string \<Rightarrow> obj list \<Rightarrow> store \<times> 'x \<Rightarrow> (error + unit) \<times> store \<times> 'x" where
  "posSyncProducts env config uid [] (s, x) = (Inr (), s, x)"
| "posSyncProducts env config uid (product # rest) (s, x) =
     (case upsertPosProductAction env config (with_field ''userId'' (JStr uid) product) x of
        (pResult, x') \<Rightarrow>
          (if success pResult \<and> truthy_str (externalId pResult) \<and> truthy (field product ''id'')
           then
             (case (case field product ''id'' of
                      Some (JStr pid) \<Rightarrow> getUserSubcollectionDocRef uid INVENTORY_SUBCOLLECTION pid
                    | _ \<Rightarrow> Inl (FirestoreError ''The document id is not a string.'')) of
                Inl e \<Rightarrow> (Inl e, s, x')
              | Inr productRef \<Rightarrow>
                  (case awaitUpdateDoc env productRef
                          [(''posRefs.'' @ systemIdText config,
                            posRef env config (the (externalId pResult)))] (s, x') of
                     (Inl e, s', x'') \<Rightarrow> (Inl e, s', x'')
                   | (Inr u, s', x'') \<Rightarrow> posSyncProducts env config uid rest (s', x'')))
           else posSyncProducts env config uid rest (s, x')))"

text \<open>
  Step 3: the expense document, for the payable document types. A failed result of the
  expense creation is thrown.
\<close>

definition posSyncDocument ::
  "'x env \<Rightarrow> obj \<Rightarrow> DocType \<Rightarrow> docpath \<Rightarrow> obj \<Rightarrow> store \<times> 'x \<Rightarrow> (error + unit) \<times> store \<times> 'x" where
  "posSyncDocument env config t invoiceDocRef invoiceRecord sx =
     (case sx of (s, x) \<Rightarrow>
        (if t = invoice \<or> t = invoiceReceipt \<or> t = receipt then
           (case createPosExpenseAction env config invoiceRecord x of
              (expenseResult, x') \<Rightarrow>
                (if success expenseResult \<and> truthy_str (externalId expenseResult) then
                   awaitUpdateDoc env invoiceDocRef
                     [(''isSyncedToPos'', JBool True),
                      (''syncStatus.status'', JStr ''success''),
                      (''syncStatus.lastSync'', JStr (nowIso env)),
                      (''syncStatus.error'', JNull),
                      (''posRefs.'' @ systemIdText config,
                       posRef env config (the (externalId expenseResult)))] (s, x')
                 else (Inl (Error (''POS expense creation failed: '' @ message expenseResult)),
                       s, x')))
         else
           awaitUpdateDoc env invoiceDocRef
             [(''isSyncedToPos'', JBool True),
              (''syncStatus.status'', JStr ''success''),
              (''syncStatus.lastSync'', JStr (nowIso env)),
              (''syncStatus.error'', JNull)] (s, x)))"

definition recordId :: "obj \<Rightarrow> string" where
  "recordId r = (case field r ''id'' of Some (JStr i) \<Rightarrow> i | _ \<Rightarrow> [])"

text \<open>
  The body of the inner \<open>try\<close>. \<open>Inl e\<close> is an exception on its way to the \<open>catch\<close>; the
  store and the outside world are returned as they are at that moment.
\<close>

definition posSync ::
  "'x env \<Rightarrow> FinalizeInvoiceData \<Rightarrow> txResult \<Rightarrow> store \<times> 'x \<Rightarrow> (error + unit) \<times> store \<times> 'x" where
  "posSync env d r sx =
     (case sx of (s, x) \<Rightarrow>
        (case awaitUserSettings env (userId d) (s, x) of
           (Inl e, x0) \<Rightarrow> (Inl e, s, x0)
         | (Inr userSettings, x0) \<Rightarrow>
            (if \<not> truthy (field userSettings ''posConfig'') then (Inr (), s, x0)
             else
               (let config = (case field userSettings ''posConfig'' of
                                Some (JObj c) \<Rightarrow> c | _ \<Rightarrow> [])
                in case getUserSubcollectionDocRef (userId d) SUPPLIERS_SUBCOLLECTION
                          (finalSupplierId r) of
                     Inl e \<Rightarrow> (Inl e, s, x0)
                   | Inr supplierDocRef \<Rightarrow>
                  (case getUserSubcollectionDocRef (userId d) DOCUMENTS_SUBCOLLECTION
                          (recordId (finalInvoiceRecord r)) of
                     Inl e \<Rightarrow> (Inl e, s, x0)
                   | Inr invoiceDocRef \<Rightarrow>
                  (case awaitGetDoc env supplierDocRef (s, x0) of
                     (Inl e, x') \<Rightarrow> (Inl e, s, x')
                   | (Inr None, x') \<Rightarrow> (Inr (), s, x')
                   | (Inr (Some supplierDoc), x') \<Rightarrow>
                       (let supplierData =
                              with_field ''osekMorshe'' (str_nullable (osekMorshe d)) supplierDoc
                        in case posSyncSupplier env config supplierDocRef supplierData (s, x') of
                             (Inl e, s1, x1) \<Rightarrow> (Inl e, s1, x1)
                           | (Inr posSupplierId, s1, x1) \<Rightarrow>
                               (if truthy posSupplierId then
                                  (case posSyncProducts env config (userId d)
                                          (savedOrUpdatedProducts r) (s1, x1) of
                                     (Inl e, s2, x2) \<Rightarrow> (Inl e, s2, x2)
                                   | (Inr u, s2, x2) \<Rightarrow>
                                       posSyncDocument env config (docType d) invoiceDocRef
                                         (finalInvoiceRecord r) (s2, x2))
                                else (Inr (), s1, x1)))))))))"

text \<open>
  The \<open>catch (posError)\<close> block: it records the failure on the document. Its
  \<open>await updateDoc\<close> stands in no \<open>try\<close> of its own: when it fails, \<open>Inl e\<close>, the
  error leaves the block.
\<close>

definition posSyncCatch ::
  "'x env \<Rightarrow> FinalizeInvoiceData \<Rightarrow> txResult \<Rightarrow> error \<Rightarrow> store \<times> 'x
     \<Rightarrow> (error + unit) \<times> store \<times> 'x" where
  "posSyncCatch env d r posError sx =
     (case sx of (s, x) \<Rightarrow>
        (if recordId (finalInvoiceRecord r) \<noteq> [] then
           (case getUserSubcollectionDocRef (userId d) DOCUMENTS_SUBCOLLECTION
                   (recordId (finalInvoiceRecord r)) of
              Inl e \<Rightarrow> (Inl e, s, x)
            | Inr ref \<Rightarrow>
                awaitUpdateDoc env ref
                  [(''isSyncedToPos'', JBool False),
                   (''syncStatus.status'', JStr ''error''),
                   (''syncStatus.error'', JStr (''POS Sync Failed: '' @ error_message posError))]
                  (s, x))
         else (Inr (), s, x)))"

subsection \<open>The service\<close>

text \<open>
  The result is what the caller receives (\<open>Inl\<close>: the promise rejects), the store and the
  outside world after the call. The outer \<open>catch\<close> logs the error and throws it again: an error
  of the transaction, and also one that leaves the \<open>catch\<close> block of the relay after the
  commit.
\<close>

definition finalizeSaveProductsService ::
  "'x env \<Rightarrow> FinalizeInvoiceData \<Rightarrow> store \<Rightarrow> store \<times> 'x
     \<Rightarrow> (error + obj \<times> obj list) \<times> store \<times> 'x" where
  "finalizeSaveProductsService env d qs sx =
     (case sx of (s, x) \<Rightarrow>
        (if userId d = [] then (Inl (Error ''User ID is missing.''), s, x)
         else if \<not> truthy_str (supplierName d)
         then (Inl (Error ''Supplier name is required.''), s, x)
         else
           (case runTransaction env d qs s of
              (Inl e, s0) \<Rightarrow> (Inl e, s0, x)
            | (Inr r, s0) \<Rightarrow>
                (case posSync env d r (s0, x) of
                   (Inr u, s1, x1) \<Rightarrow>
                     (Inr (finalInvoiceRecord r, savedOrUpdatedProducts r), s1, x1)
                 | (Inl posError, s1, x1) \<Rightarrow>
                     (case posSyncCatch env d r posError (s1, x1) of
                        (Inl e, s2, x2) \<Rightarrow> (Inl e, s2, x2)
                      | (Inr u, s2, x2) \<Rightarrow>
                          (Inr (finalInvoiceRecord r, savedOrUpdatedProducts r), s2, x2))))))"

subsection \<open>Kinds of line items\<close>

text \<open>A line item that refers to an existing inventory record, and one that does not.\<close>

definition isUpdateItem :: "obj \<Rightarrow> bool" where
  "isUpdateItem p =
     (case field p ''_originalId'' of
        Some (JStr oid) \<Rightarrow> oid \<noteq> [] \<and> \<not> prefix ''prod-temp-'' oid
      | _ \<Rightarrow> False)"

definition isCreateItem :: "obj \<Rightarrow> bool" where
  "isCreateItem p =
     (case field p ''_originalId'' of
        Some (JStr oid) \<Rightarrow> oid = [] \<or> prefix ''prod-temp-'' oid
      | v \<Rightarrow> \<not> truthy v)"

subsection \<open>Sample environments, stores and calls\<close>

text \<open>An adapter every method of which throws.\<close>

definition throwing_adapter :: "unit adapter" where
  "throwing_adapter =
     \<lparr>systemName = ''Caspit'',
      upsertProduct = (\<lambda>p x. (Inl ''connection refused'', x)),
      upsertSupplier = (\<lambda>p x. (Inl ''connection refused'', x)),
      createTaxInvoice = Some (\<lambda>p x. (Inl ''connection refused'', x))\<rparr>"

definition sample_env :: "unit adapter \<Rightarrow> (writeOp \<Rightarrow> bool) \<Rightarrow> unit env" where
  "sample_env a rejects =
     \<lparr>autoId = (\<lambda>n. ''auto-'' @ replicate (Suc n) (CHR ''a'')),
      nowIso = ''2025-01-01T00:00:00.000Z'',
      convertToTimestampIfValid = (\<lambda>v. JNull),
      caspit = a,
      storeRejects = rejects,
      contention = (\<lambda>a. None),
      maxAttempts = 5,
      storeCall = (\<lambda>request x. (None, x))\<rparr>"

definition accept_all :: "writeOp \<Rightarrow> bool" where
  "accept_all w = False"

text \<open>A store that refuses every write to the documents collection.\<close>

definition reject_documents :: "writeOp \<Rightarrow> bool" where
  "reject_documents w =
     (case w of
        TxSet p d \<Rightarrow> fst (snd p) = DOCUMENTS_SUBCOLLECTION
      | TxSetMerge p d \<Rightarrow> fst (snd p) = DOCUMENTS_SUBCOLLECTION
      | TxUpdate p d \<Rightarrow> fst (snd p) = DOCUMENTS_SUBCOLLECTION)"

text \<open>A store that answers no update sent outside a transaction.\<close>

definition updates_unavailable :: "storeRequest \<Rightarrow> unit \<Rightarrow> error option \<times> unit" where
  "updates_unavailable request x =
     (case request of
        GetDocRequest p \<Rightarrow> (None, x)
      | UpdateDocRequest p changes \<Rightarrow> (Some (FirestoreError ''unavailable''), x))"

definition caspit_settings :: "docpath \<times> obj" where
  "caspit_settings =
     ((''u1'', ''settings'', ''userProfile''),
      [(''posConfig'',
        JObj [(''systemId'', JStr ''caspit''),
              (''credentials'',
               JObj [(''user'', JStr ''shop''), (''pwd'', JStr ''secret''),
                     (''osekMorshe'', JStr ''514'')])])])"

text \<open>A supplier that an earlier relay has already linked to the external system.\<close>

definition synced_supplier :: "docpath \<times> obj" where
  "synced_supplier =
     ((''u1'', ''suppliers'', ''s1''),
      [(''id'', JStr ''s1''), (''name'', JStr ''Acme''), (''totalSpent'', JNum 10),
       (''invoiceCount'', JNum 1),
       (''posRefs'',
        JObj [(''caspit'', JObj [(''systemId'', JStr ''caspit''),
                                 (''externalId'', JStr ''ext-1'')])])])"

definition plain_supplier :: "docpath \<times> obj" where
  "plain_supplier =
     ((''u1'', ''suppliers'', ''s1''),
      [(''id'', JStr ''s1''), (''name'', JStr ''Acme''), (''totalSpent'', JNum 10),
       (''invoiceCount'', JNum 1), (''posRefs'', JObj [])])"

text \<open>The same supplier after another writer has booked a document on it.\<close>

definition busy_supplier :: "docpath \<times> obj" where
  "busy_supplier =
     ((''u1'', ''suppliers'', ''s1''),
      [(''id'', JStr ''s1''), (''name'', JStr ''Acme''), (''totalSpent'', JNum 30),
       (''invoiceCount'', JNum 2), (''posRefs'', JObj [])])"

text \<open>The first commit meets that change, the second meets none.\<close>

definition contended_once :: "nat \<Rightarrow> (store \<times> store) option" where
  "contended_once a = (if a = 0 then Some ([busy_supplier], [busy_supplier]) else None)"

definition sample_data :: "DocType \<Rightarrow> obj list \<Rightarrow> FinalizeInvoiceData" where
  "sample_data t ps =
     \<lparr>products = ps, originalFileName = ''scan.jpg'', docType = t, userId = ''u1'',
      existingDocumentId = None, invoiceNumber = Some ''1001'', supplierName = Some ''Acme'',
      totalAmount = Some 50, paymentDueDate = JNull, invoiceDate = JNull, paymentMethod = None,
      originalImagePreviewUri = None, compressedImageForFinalRecordUri = None,
      rawScanResultJson = None, paymentTerms = None, osekMorshe = None\<rparr>"

definition milk :: obj where
  "milk = [(''name'', JStr ''Milk''), (''catalogNumber'', JStr ''X1''), (''unitPrice'', JNum 4)]"

definition known_bread :: obj where
  "known_bread = [(''name'', JStr ''Bread''), (''_originalId'', JStr ''p7''), (''unitPrice'', JNum 3)]"

definition temp_eggs :: obj where
  "temp_eggs = [(''name'', JStr ''Eggs''), (''_originalId'', JStr ''prod-temp-1''),
                (''unitPrice'', JNum 2)]"

definition sample_flow :: flow_state where
  "sample_flow =
     \<lparr>currentDialogStep = prompt_link_invoice, isDialogFlowActive = True,
      isLinkInvoiceSheetOpen = True, isLinkDeliveryNotesSheetOpen = False,
      finalizedSupplierId = Some ''s1'', finalizedLinkedInvoiceId = None,
      finalizedLinkedDeliveryNoteIds = [], productsToDisplayForNewDetails = []\<rparr>"

subsection \<open>What the theorems below speak about\<close>

text \<open>
  The write staged for line item \<open>p\<close> when \<open>n\<close> ids have been drawn before it: an update
  of the inventory record named by its \<open>_originalId\<close>, or a new record under the next
  generated id that carries this id; both stamped \<open>isActive = true\<close>.
\<close>

definition itemWrite :: "'x env \<Rightarrow> string \<Rightarrow> nat \<Rightarrow> obj \<Rightarrow> writeOp \<Rightarrow> bool" where
  "itemWrite env uid n p w \<longleftrightarrow>
     (isUpdateItem p \<and>
        (\<exists>oid data. field p ''_originalId'' = Some (JStr oid)
           \<and> w = TxUpdate (uid, INVENTORY_SUBCOLLECTION, oid) data
           \<and> field data ''isActive'' = Some (JBool True)))
     \<or> (isCreateItem p \<and>
        (\<exists>data. w = TxSet (uid, INVENTORY_SUBCOLLECTION, autoId env n) data
           \<and> field data ''id'' = Some (JStr (autoId env n))
           \<and> field data ''isActive'' = Some (JBool True)))"

text \<open>The top-level fields that the POS relay writes.\<close>

definition relayFields :: "string set" where
  "relayFields = {''isSyncedToPos'', ''syncStatus'', ''posRefs''}"

text \<open>
  Two stores hold the same documents, and every document has the same value in every field
  that is not one of the relay's.
\<close>

definition sameExceptRelayFields :: "store \<Rightarrow> store \<Rightarrow> bool" where
  "sameExceptRelayFields s s' \<longleftrightarrow>
     (\<forall>p. (getDoc p s' = None \<longleftrightarrow> getDoc p s = None)
        \<and> (\<forall>k. k \<notin> relayFields \<longrightarrow>
              map_option (\<lambda>doc. field doc k) (getDoc p s')
                = map_option (\<lambda>doc. field doc k) (getDoc p s)))"

text \<open>
  A store that holds no write of the call: the store \<open>s\<close> that the call found, or one that
  other writers left behind while the transaction was contended.
\<close>

definition leftByOthers :: "'x env \<Rightarrow> store \<Rightarrow> store \<Rightarrow> bool" where
  "leftByOthers env s s' \<longleftrightarrow> s' = s \<or> (\<exists>a qs'. contention env a = Some (qs', s'))"

section \<open>Creating suppliers\<close>

text \<open>
  \<open>{...ob, k: v}\<close> where \<open>v\<close> may be \<open>undefined\<close>: a property that is \<open>undefined\<close>
  reads as absent and is left out by JSON. The store does not take it: \<open>addDoc\<close> rejects
  an object that has one (the Firestore handle is made without
  \<open>ignoreUndefinedProperties\<close>).
\<close>

definition with_optional :: "string \<Rightarrow> jsval option \<Rightarrow> obj \<Rightarrow> obj" where
  "with_optional k v ob = (case v of Some x \<Rightarrow> with_field k x ob | None \<Rightarrow> without_field k ob)"

text \<open>\<open>getDocs(query(ref, where(field, "==", value), limit(1)))\<close>.\<close>

definition queryEqLimit1 :: "string \<times> string \<Rightarrow> string \<Rightarrow> jsval \<Rightarrow> store \<Rightarrow> (docpath \<times> obj) list" where
  "queryEqLimit1 collectionRef fld v s =
     take 1 (filter (\<lambda>(p, d). field d fld = Some v) (collectionDocs collectionRef s))"

definition createSupplierService ::
  "'x env \<Rightarrow> obj \<Rightarrow> string \<Rightarrow> store \<Rightarrow> (error + obj) \<times> store" where
  "createSupplierService env supplierData uid s =
     (if \<not> truthy (field supplierData ''name'')
      then (Inl (Error ''Supplier name is required to create a new supplier.''), s)
      else
        (case getUserSubcollectionRef uid ''suppliers'' of
           Inl e \<Rightarrow> (Inl e, s)
         | Inr suppliersRef \<Rightarrow>
             (case queryEqLimit1 suppliersRef ''name'' (the (field supplierData ''name'')) s of
                existingSupplierDoc # _ \<Rightarrow>
                  (Inr (spread [(''id'', JStr (docId (fst existingSupplierDoc)))]
                          (snd existingSupplierDoc)), s)
              | [] \<Rightarrow>
                  (case field supplierData ''osekMorshe'' of
                     None \<Rightarrow>
                       (Inl (FirestoreError (''Function addDoc() called with invalid data. ''
                               @ ''Unsupported field value: undefined (found in field osekMorshe)'')),
                        s)
                   | Some definedOsekMorshe \<Rightarrow>
                       (let newSupplierData =
                              with_field ''posRefs'' (JObj [])
                                (with_field ''totalSpent'' (JNum 0)
                                   (with_field ''invoiceCount'' (JNum 0)
                                      (with_field ''lastActivityDate'' JServerTimestamp
                                         (with_field ''createdAt'' JServerTimestamp
                                            (with_field ''userId'' (JStr uid)
                                               (with_field ''osekMorshe'' definedOsekMorshe
                                                  (with_field ''name''
                                                     (the (field supplierData ''name''))
                                                     supplierData)))))));
                            newDocRef = (fst suppliersRef, snd suppliersRef, autoId env 0)
                        in (Inr (spread [(''id'', JStr (docId newDocRef))] newSupplierData),
                            setDoc newDocRef newSupplierData s))))))"

text \<open>
  The second creation path. It makes a reference and an object for the new supplier and offers
  the object to the POS system; it sends no \<open>set\<close> or \<open>addDoc\<close> to the store.
\<close>

definition createSupplierAndSyncWithPosService ::
  "'x env \<Rightarrow> obj \<Rightarrow> string \<Rightarrow> store \<times> 'x \<Rightarrow> (error + obj) \<times> store \<times> 'x" where
  "createSupplierAndSyncWithPosService env supplierData uid sx =
     (case sx of (s, x) \<Rightarrow>
      (case getUserSubcollectionRef uid ''suppliers'' of
         Inl e \<Rightarrow> (Inl e, s, x)
       | Inr suppliersRef \<Rightarrow>
        (let newSupplierRef = (fst suppliersRef, snd suppliersRef, autoId env 0)
         in if \<not> truthy (field supplierData ''name'')
            then (Inl (Error ''Supplier name is required to create a new supplier.''), s, x)
            else
             (let newSupplierData =
                    with_field ''posRefs'' (JObj [])
                      (with_field ''lastActivityDate'' JServerTimestamp
                         (with_field ''createdAt'' JServerTimestamp
                            (with_field ''userId'' (JStr uid)
                               (with_optional ''osekMorshe'' (field supplierData ''osekMorshe'')
                                  (with_field ''name'' (the (field supplierData ''name''))
                                     supplierData)))));
                  finalSupplierObject =
                    with_field ''lastActivityDate'' (JStr (nowIso env))
                      (with_field ''createdAt'' (JStr (nowIso env))
                         (with_field ''id'' (JStr (docId newSupplierRef)) newSupplierData));
                  attempt =
                    (case getUserSettingsService uid s of
                       Inl e \<Rightarrow> (Inl e, s, x)
                     | Inr userSettings \<Rightarrow>
                         (if \<not> truthy (field userSettings ''posConfig'')
                          then (Inr None, s, x)
                          else
                            (let config = (case field userSettings ''posConfig'' of
                                             Some (JObj c) \<Rightarrow> c | _ \<Rightarrow> [])
                             in case upsertPosSupplierAction env config finalSupplierObject x of
                                  (result, x') \<Rightarrow>
                                    (if success result \<and> truthy_str (externalId result) then
                                       (if docId newSupplierRef = []
                                        then (Inl (Error
                                               ''Failed to get ID for the newly created supplier.''),
                                              s, x')
                                        else
                                          (case getUserSubcollectionDocRef uid SUPPLIERS_SUBCOLLECTION
                                                  (docId newSupplierRef) of
                                             Inl e \<Rightarrow> (Inl e, s, x')
                                           | Inr supplierRef \<Rightarrow>
                                               (case updateDoc supplierRef
                                                       [(''posRefs.'' @ systemIdText config,
                                                         posRef env config (the (externalId result)))]
                                                       s of
                                                  Inl e \<Rightarrow> (Inl e, s, x')
                                                | Inr s' \<Rightarrow>
                                                    (Inr (Some
                                                       (if truthy_str (systemIdOf config)
                                                        then set_path
                                                               [''posRefs'', the (systemIdOf config)]
                                                               (posRef env config
                                                                  (the (externalId result)))
                                                               finalSupplierObject
                                                        else finalSupplierObject)),
                                                     s', x'))))
                                     else (Inr None, s, x')))))
              in case attempt of
                   (Inr (Some updatedSupplier), s', x') \<Rightarrow> (Inr updatedSupplier, s', x')
                 | (Inr None, s', x') \<Rightarrow> (Inr finalSupplierObject, s', x')
                 | (Inl posError, s', x') \<Rightarrow>
                     (if docId newSupplierRef \<noteq> [] then
                        (case getUserSubcollectionDocRef uid SUPPLIERS_SUBCOLLECTION
                                (docId newSupplierRef) of
                           Inl e \<Rightarrow> (Inl e, s', x')
                         | Inr ref \<Rightarrow>
                             (case updateDoc ref
                                     [(''isSyncedToPos'', JBool False),
                                      (''syncStatus.status'', JStr ''error''),
                                      (''syncStatus.error'',
                                         JStr (''POS Sync Failed: '' @ error_message posError))]
                                     s' of
                                Inl e \<Rightarrow> (Inl e, s', x')
                              | Inr s'' \<Rightarrow> (Inr finalSupplierObject, s'', x')))
                      else (Inr finalSupplierObject, s', x'))))))"

definition acme_request :: obj where
  "acme_request = [(''name'', JStr ''Acme''), (''paymentTerms'', JStr ''Net 30'')]"

section \<open>Properties of the resolution flow\<close>

text \<open>
  C4. Whatever the document type (also when it is not set), the step that follows
  \<open>new_product_details\<close> is \<open>prompt_link_delivery_notes\<close> for an invoice or an
  invoice-receipt, \<open>prompt_link_invoice\<close> for a receipt and \<open>ready_to_save\<close> otherwise;
  it is never \<open>supplier_payment_details\<close> or \<open>processing\<close>, and the handler of the
  product-review dialog moves the flow to exactly that step.
\<close>

theorem forward_only_from_new_product_details:
  "advanceToNextStep dt new_product_details =
     (case dt of
        Some invoice \<Rightarrow> prompt_link_delivery_notes
      | Some invoiceReceipt \<Rightarrow> prompt_link_delivery_notes
      | Some receipt \<Rightarrow> prompt_link_invoice
      | Some deliveryNote \<Rightarrow> ready_to_save
      | None \<Rightarrow> ready_to_save)
   \<and> advanceToNextStep dt new_product_details \<noteq> supplier_payment_details
   \<and> advanceToNextStep dt new_product_details \<noteq> processing
   \<and> currentDialogStep (handleNewProductDetailsDialogComplete dt st)
       = advanceToNextStep dt new_product_details"
  by (cases dt; cases "the dt")
     (simp_all add: handleNewProductDetailsDialogComplete_def)

section \<open>Properties of price reconciliation\<close>

lemma field_with_field: "field (with_field k v ob) k' = (if k' = k then Some v else field ob k')"
  by (simp add: field_def with_field_def update_conv')

lemma field_without_field: "field (without_field k ob) k' = (if k' = k then None else field ob k')"
  by (simp add: field_def without_field_def delete_conv')

subsection \<open>The queries sent by fetchInChunks\<close>








subsection \<open>Line items without identity keys\<close>

lemma priceCheckStep_keyless:
  "keyless p \<Longrightarrow> priceCheckStep toNumber m p r
     = r\<lparr>productsToSaveDirectly := productsToSaveDirectly r @ [p]\<rparr>"
  by (simp add: keyless_def priceCheckStep_def findExisting_def lookupKey_def)

lemma priceCheckStep_direct_mono:
  "set (productsToSaveDirectly r) \<subseteq> set (productsToSaveDirectly (priceCheckStep toNumber m p r))"
  by (auto simp: priceCheckStep_def Let_def split: option.splits)

lemma priceCheckStep_discrepancy_keyed:
  assumes "d \<in> set (priceDiscrepancies (priceCheckStep toNumber m p r))"
  shows "d \<in> set (priceDiscrepancies r) \<or> \<not> keyless d"
proof (cases "findExisting m p")
  case None
  with assms show ?thesis by (simp add: priceCheckStep_def)
next
  case (Some e)
  then have k: "\<not> keyless p"
    by (auto simp: keyless_def findExisting_def lookupKey_def split: option.splits if_splits)
  have "\<not> keyless (with_field ''newUnitPrice'' a (with_field ''existingUnitPrice'' b (with_id_of e p)))"
    for a b
    using k by (simp add: keyless_def field_with_field field_without_field with_id_of_def
                     split: option.splits)
  with assms Some show ?thesis
    by (auto simp: priceCheckStep_def Let_def split: if_splits)
qed

lemma fold_priceCheckStep_direct_mono:
  "set (productsToSaveDirectly r)
     \<subseteq> set (productsToSaveDirectly (fold (priceCheckStep toNumber m) ps r))"
  by (induction ps arbitrary: r) (auto dest: subsetD[OF priceCheckStep_direct_mono])

lemma fold_priceCheckStep_keyless:
  "p \<in> set ps \<Longrightarrow> keyless p
     \<Longrightarrow> p \<in> set (productsToSaveDirectly (fold (priceCheckStep toNumber m) ps r))"
proof (induction ps arbitrary: r)
  case Nil
  then show ?case by simp
next
  case (Cons q ps)
  show ?case
  proof (cases "p = q")
    case True
    then have "p \<in> set (productsToSaveDirectly (priceCheckStep toNumber m q r))"
      using Cons.prems(2) by (simp add: priceCheckStep_keyless)
    then show ?thesis
      using fold_priceCheckStep_direct_mono[of "priceCheckStep toNumber m q r" toNumber m ps]
      by auto
  next
    case False
    then show ?thesis using Cons by simp
  qed
qed

lemma fold_priceCheckStep_discrepancy_keyed:
  "d \<in> set (priceDiscrepancies (fold (priceCheckStep toNumber m) ps r))
     \<Longrightarrow> d \<in> set (priceDiscrepancies r) \<or> \<not> keyless d"
proof (induction ps arbitrary: r)
  case Nil
  then show ?case by simp
next
  case (Cons q ps)
  then show ?case using priceCheckStep_discrepancy_keyed by fastforce
qed

lemma truthyValues_empty_iff:
  "truthyValues fld ps = [] \<longleftrightarrow> (\<forall>p\<in>set ps. \<not> truthy (field p fld))"
  by (induction ps) (auto simp: truthyValues_def)

text \<open>
  C9. For a signed-in user, price reconciliation returns, and in its result every candidate
  without catalog number and without barcode is in \<open>productsToSaveDirectly\<close> as it came, no
  entry of \<open>priceDiscrepancies\<close> is without both keys (so no such candidate is reported),
  whatever the inventory holds; and when no candidate carries a key, the result is the input
  list itself with no discrepancy and no query is sent to the store.
\<close>

theorem keyless_items_are_saved_directly:
  assumes "uid \<noteq> []"
  shows "\<exists>r sent. checkProductPricesBeforeSaveService toNumber productsToCheck uid s = Inr (r, sent)
       \<and> (\<forall>p\<in>set productsToCheck. keyless p \<longrightarrow> p \<in> set (productsToSaveDirectly r))
       \<and> (\<forall>d\<in>set (priceDiscrepancies r). \<not> keyless d)
       \<and> ((\<forall>p\<in>set productsToCheck. keyless p) \<longrightarrow>
            r = \<lparr>productsToSaveDirectly = productsToCheck, priceDiscrepancies = []\<rparr> \<and> sent = [])"
proof (cases "\<forall>p\<in>set productsToCheck. keyless p")
  case True
  then have "truthyValues ''catalogNumber'' productsToCheck = []"
    "truthyValues ''barcode'' productsToCheck = []"
    by (simp_all add: truthyValues_empty_iff keyless_def)
  then have "checkProductPricesBeforeSaveService toNumber productsToCheck uid s
      = Inr (\<lparr>productsToSaveDirectly = productsToCheck, priceDiscrepancies = []\<rparr>, [])"
    using assms by (simp add: checkProductPricesBeforeSaveService_def getUserSubcollectionRef_def)
  then show ?thesis by simp
next
  case False
  then have ne: "\<not> (truthyValues ''catalogNumber'' productsToCheck = []
      \<and> truthyValues ''barcode'' productsToCheck = [])"
    by (auto simp: truthyValues_empty_iff keyless_def)
  obtain m sent where r: "checkProductPricesBeforeSaveService toNumber productsToCheck uid s
      = Inr (fold (priceCheckStep toNumber m) productsToCheck
               \<lparr>productsToSaveDirectly = [], priceDiscrepancies = []\<rparr>, sent)"
    using assms ne
    by (simp add: checkProductPricesBeforeSaveService_def getUserSubcollectionRef_def Let_def)
  show ?thesis
    using r False fold_priceCheckStep_keyless[of _ productsToCheck toNumber m]
      fold_priceCheckStep_discrepancy_keyed[of _ toNumber m productsToCheck
        "\<lparr>productsToSaveDirectly = [], priceDiscrepancies = []\<rparr>"]
    by auto
qed

theorem keyless_items_are_saved_directly_witness:
  "keyless item_plain
   \<and> (\<exists>r sent. checkProductPricesBeforeSaveService no_coercion [item_plain, item_B] ''u1''
                   sample_inventory = Inr (r, sent)
        \<and> item_plain \<in> set (productsToSaveDirectly r))
   \<and> (\<exists>r. checkProductPricesBeforeSaveService no_coercion [item_plain] ''u1'' sample_inventory
             = Inr (r, [])
        \<and> productsToSaveDirectly r = [item_plain])"
proof -
  have k: "keyless item_plain"
    by (simp add: keyless_def item_plain_def field_def)
  have u: "''u1'' \<noteq> []"
    by simp
  from keyless_items_are_saved_directly[OF u, of no_coercion "[item_plain, item_B]" sample_inventory]
  have a: "\<exists>r sent. checkProductPricesBeforeSaveService no_coercion [item_plain, item_B] ''u1''
                   sample_inventory = Inr (r, sent)
        \<and> item_plain \<in> set (productsToSaveDirectly r)"
    using k by auto
  from keyless_items_are_saved_directly[OF u, of no_coercion "[item_plain]" sample_inventory]
  have b: "\<exists>r. checkProductPricesBeforeSaveService no_coercion [item_plain] ''u1'' sample_inventory
             = Inr (r, [])
        \<and> productsToSaveDirectly r = [item_plain]"
    using k by auto
  from k a b show ?thesis by blast
qed

subsection \<open>Matching through the shared lookup table\<close>

text \<open>
  C3. The lookup table of price reconciliation holds each fetched inventory record under its
  catalog number and under its barcode, in one key space. The inventory below has one record,
  with catalog number ZZZ, barcode 123 and unit price 5. Line item A has catalog number 123, no
  barcode and unit price 9: no inventory record has that catalog number. Checked alone, A is
  saved directly, unchanged. Checked together with line item B, whose barcode is 123, A is
  reported as a price discrepancy against the record that B has fetched (existing price 5, new
  price 9) and carries that record's id.
\<close>

theorem price_check_matches_across_key_kinds:
  "checkProductPricesBeforeSaveService no_coercion [item_A] ''u1'' sample_inventory
     = Inr (\<lparr>productsToSaveDirectly = [item_A], priceDiscrepancies = []\<rparr>,
            [(''catalogNumber'', [JStr ''123''])])
   \<and> checkProductPricesBeforeSaveService no_coercion [item_A, item_B] ''u1'' sample_inventory
     = Inr (\<lparr>productsToSaveDirectly =
               [[(''id'', JStr ''p1''), (''userId'', JStr ''u1''), (''name'', JStr ''B''),
                 (''barcode'', JStr ''123''), (''unitPrice'', JNum 5), (''quantity'', JNum 1)]],
             priceDiscrepancies =
               [[(''id'', JStr ''p1''), (''userId'', JStr ''u1''), (''name'', JStr ''A''),
                 (''catalogNumber'', JStr ''123''), (''unitPrice'', JNum 9),
                 (''quantity'', JNum 2), (''existingUnitPrice'', JNum 5),
                 (''newUnitPrice'', JNum 9)]]\<rparr>,
            [(''catalogNumber'', [JStr ''123'']), (''barcode'', [JStr ''123''])])"
  by code_simp

text \<open>
  What does hold for every input: each line item ends in exactly one of the two lists, so the
  lengths of the lists add up to the length of the input.
\<close>

lemma priceCheckStep_counts:
  "length (productsToSaveDirectly (priceCheckStep toNumber m p r))
     + length (priceDiscrepancies (priceCheckStep toNumber m p r))
   = Suc (length (productsToSaveDirectly r) + length (priceDiscrepancies r))"
  by (simp add: priceCheckStep_def Let_def split: option.splits)

lemma fold_priceCheckStep_counts:
  "length (productsToSaveDirectly (fold (priceCheckStep toNumber m) ps r))
     + length (priceDiscrepancies (fold (priceCheckStep toNumber m) ps r))
   = length ps + (length (productsToSaveDirectly r) + length (priceDiscrepancies r))"
  by (induction ps arbitrary: r) (simp_all add: priceCheckStep_counts)

lemma price_check_one_list_per_item:
  assumes "checkProductPricesBeforeSaveService toNumber productsToCheck uid s = Inr (r, sent)"
  shows "length (productsToSaveDirectly r) + length (priceDiscrepancies r)
           = length productsToCheck"
  using assms fold_priceCheckStep_counts[of toNumber _ productsToCheck
      "\<lparr>productsToSaveDirectly = [], priceDiscrepancies = []\<rparr>"]
  by (auto simp: checkProductPricesBeforeSaveService_def getUserSubcollectionRef_def Let_def
           split: if_splits)

section \<open>Properties of the transactional finalizer\<close>

subsection \<open>Line items\<close>

lemma item_kinds_exclusive: "\<not> (isUpdateItem p \<and> isCreateItem p)"
  by (auto simp: isUpdateItem_def isCreateItem_def split: option.splits jsval.splits)

lemma productStep_update:
  assumes "uid \<noteq> []" "isUpdateItem p"
  shows "\<exists>oid data. field p ''_originalId'' = Some (JStr oid)
     \<and> productStep env uid p (n, ws, saved)
         = Inr (n, ws @ [TxUpdate (uid, INVENTORY_SUBCOLLECTION, oid) data],
                saved @ [with_field ''userId'' (JStr uid)
                           (with_field ''id'' (JStr oid) (without_field ''_originalId'' p))])
     \<and> field data ''isActive'' = Some (JBool True)"
  using assms
  by (auto simp: isUpdateItem_def productStep_def updateProduct_def Let_def
        getUserSubcollectionDocRef_def field_with_field
      split: option.splits jsval.splits)

lemma productStep_create:
  assumes "isCreateItem p"
  shows "\<exists>data. productStep env uid p (n, ws, saved)
         = Inr (Suc n, ws @ [TxSet (uid, INVENTORY_SUBCOLLECTION, autoId env n) data],
                saved @ [without_field ''lastUpdated'' data])
     \<and> field data ''id'' = Some (JStr (autoId env n))
     \<and> field data ''isActive'' = Some (JBool True)"
  using assms
  by (auto simp: isCreateItem_def productStep_def createProduct_def Let_def docId_def
        field_with_field
      split: option.splits jsval.splits)

lemma productStep_kinds:
  assumes "productStep env uid p st = Inr st'"
  shows "isUpdateItem p \<or> isCreateItem p"
  using assms
  by (auto simp: isUpdateItem_def isCreateItem_def productStep_def Let_def
      split: option.splits jsval.splits if_splits)

lemma productStep_itemWrite:
  assumes "uid \<noteq> []" "productStep env uid p (n, ws, saved) = Inr st'"
  shows "\<exists>w saved'. st' = (n + (if isCreateItem p then 1 else 0), ws @ [w], saved')
           \<and> itemWrite env uid n p w"
proof -
  from assms(2) have "isUpdateItem p \<or> isCreateItem p"
    by (rule productStep_kinds)
  then show ?thesis
  proof
    assume u: "isUpdateItem p"
    then have "\<not> isCreateItem p" using item_kinds_exclusive by blast
    with productStep_update[OF assms(1) u, of env n ws saved] assms(2) u
    show ?thesis by (auto simp: itemWrite_def)
  next
    assume c: "isCreateItem p"
    with productStep_create[OF c, of env uid n ws saved] assms(2)
    show ?thesis by (auto simp: itemWrite_def)
  qed
qed

lemma productLoop_writes:
  assumes "uid \<noteq> []"
  shows "productLoop env uid ps (n, ws, saved) = Inr (n', ws', saved') \<Longrightarrow>
     \<exists>new. ws' = ws @ new \<and> length new = length ps
       \<and> n' = n + length (filter isCreateItem ps)
       \<and> (\<forall>i<length ps.
             itemWrite env uid (n + length (filter isCreateItem (take i ps))) (ps ! i) (new ! i))"
proof (induction ps arbitrary: n ws saved)
  case Nil
  then show ?case by simp
next
  case (Cons p ps)
  from Cons.prems obtain st1 where st1: "productStep env uid p (n, ws, saved) = Inr st1"
      and rest: "productLoop env uid ps st1 = Inr (n', ws', saved')"
    by (auto split: sum.splits)
  from productStep_itemWrite[OF assms st1] obtain w saved1 where
    w: "st1 = (n + (if isCreateItem p then 1 else 0), ws @ [w], saved1)"
       "itemWrite env uid n p w"
    by blast
  let ?n1 = "n + (if isCreateItem p then 1 else 0)"
  from Cons.IH[of ?n1 "ws @ [w]" saved1] rest w(1) obtain new where
    new: "ws' = (ws @ [w]) @ new" "length new = length ps"
         "n' = ?n1 + length (filter isCreateItem ps)"
         "\<forall>i<length ps. itemWrite env uid (?n1 + length (filter isCreateItem (take i ps)))
                            (ps ! i) (new ! i)"
    by blast
  have "\<forall>i<length (p # ps).
          itemWrite env uid (n + length (filter isCreateItem (take i (p # ps))))
            ((p # ps) ! i) ((w # new) ! i)"
  proof (intro allI impI)
    fix i assume i: "i < length (p # ps)"
    show "itemWrite env uid (n + length (filter isCreateItem (take i (p # ps))))
            ((p # ps) ! i) ((w # new) ! i)"
    proof (cases i)
      case 0
      then show ?thesis using w(2) by simp
    next
      case (Suc j)
      then have "j < length ps" using i by simp
      with new(4) have "itemWrite env uid (?n1 + length (filter isCreateItem (take j ps)))
                            (ps ! j) (new ! j)" by blast
      then show ?thesis using Suc by (cases "isCreateItem p") simp_all
    qed
  qed
  then show ?case
    apply (intro exI[of _ "w # new"])
    using new by simp
qed

lemma productLoop_returns:
  assumes "uid \<noteq> []"
  shows "\<forall>p\<in>set ps. isUpdateItem p \<or> isCreateItem p \<Longrightarrow> \<exists>st'. productLoop env uid ps st = Inr st'"
proof (induction ps arbitrary: st)
  case Nil
  show ?case by (rule exI[of _ st]) simp
next
  case (Cons p ps)
  obtain n ws saved where st: "st = (n, ws, saved)" by (cases st) auto
  from Cons.prems have "isUpdateItem p \<or> isCreateItem p" by simp
  then obtain st1 where "productStep env uid p st = Inr st1"
    using productStep_update[OF assms, of p env n ws saved]
      productStep_create[of p env uid n ws saved] st
    by auto
  with Cons.IH[of st1] Cons.prems show ?case by simp
qed

lemma transactionBody_returns:
  assumes "userId d \<noteq> []"
    and "\<forall>ref snapshot. supplierQuery (userId d) (the (supplierName d)) qs = Some (ref, snapshot)
            \<longrightarrow> getDoc ref s \<noteq> None"
    and "\<forall>p\<in>set (products d). isUpdateItem p \<or> isCreateItem p"
  shows "\<exists>r. transactionBody env d saved0 qs s = Inr r"
proof -
  have loop: "\<exists>st'. productLoop env (userId d) (products d) st = Inr st'" for st
    using productLoop_returns[OF assms(1) assms(3)] by blast
  show ?thesis
  proof (cases "supplierQuery (userId d) (the (supplierName d)) qs")
    case None
    obtain st' where "productLoop env (userId d) (products d)
        (Suc 0, [TxSet (userId d, SUPPLIERS_SUBCOLLECTION, autoId env 0)
           [(''id'', JStr (autoId env 0)), (''userId'', JStr (userId d)),
            (''name'', JStr (the (supplierName d))),
            (''totalSpent'', JNum (case totalAmount d of Some a \<Rightarrow> a | None \<Rightarrow> 0)),
            (''invoiceCount'', JNum 1), (''createdAt'', JServerTimestamp),
            (''lastActivityDate'', JServerTimestamp),
            (''paymentTerms'', str_or_null (paymentTerms d)),
            (''osekMorshe'', str_or_null (osekMorshe d)), (''posRefs'', JObj [])]], saved0) = Inr st'"
      using loop by blast
    with None show ?thesis
      by (cases st') (simp add: transactionBody_def Let_def)
  next
    case (Some found)
    obtain ref snapshot where f: "found = (ref, snapshot)" by (cases found) auto
    with assms(2) Some obtain supplierData where sd: "getDoc ref s = Some supplierData" by auto
    obtain st' where "productLoop env (userId d) (products d)
        (0, [TxUpdate ref
           [(''totalSpent'', JNum (numOr0 (field supplierData ''totalSpent'')
                                   + (case totalAmount d of Some a \<Rightarrow> a | None \<Rightarrow> 0))),
            (''invoiceCount'', JNum (numOr0 (field supplierData ''invoiceCount'') + 1)),
            (''lastActivityDate'', JServerTimestamp)]], saved0) = Inr st'"
      using loop by blast
    with Some f sd show ?thesis
      by (cases st') (simp add: transactionBody_def Let_def)
  qed
qed

text \<open>
  C10. Whenever the body of the finalize transaction returns (in whatever state earlier
  attempts have left the array of saved products), it has staged one write per line
  item, in order, between the supplier write and the document write. The write of a line item
  is an update of an existing inventory record exactly when the item carries an
  \<open>_originalId\<close> that is a non-empty string not starting with \<open>prod-temp-\<close>, and it then
  addresses the record of that id; an item with no \<open>_originalId\<close> (or a falsy one) or with
  an id starting with \<open>prod-temp-\<close> gets a \<open>set\<close> of a new record under the next id drawn
  from the generator, which the record also carries in its \<open>id\<close> field. Every such write
  carries \<open>isActive = true\<close>. And the body does return when the supplier found by name is
  still there and every line item is of one of these two kinds.
\<close>

theorem line_items_update_or_create:
  assumes "userId d \<noteq> []"
  shows "(\<forall>r. transactionBody env d saved0 qs s = Inr r \<longrightarrow>
            (\<exists>n0 supplierWrite itemWrites documentWrite.
                staged r = supplierWrite # itemWrites @ [documentWrite]
              \<and> length itemWrites = length (products d)
              \<and> (\<forall>i<length (products d).
                    itemWrite env (userId d)
                      (n0 + length (filter isCreateItem (take i (products d))))
                      (products d ! i) (itemWrites ! i))))
       \<and> ((\<forall>ref snapshot. supplierQuery (userId d) (the (supplierName d)) qs = Some (ref, snapshot)
               \<longrightarrow> getDoc ref s \<noteq> None)
            \<and> (\<forall>p\<in>set (products d). isUpdateItem p \<or> isCreateItem p)
          \<longrightarrow> (\<exists>r. transactionBody env d saved0 qs s = Inr r))"
proof (intro conjI allI impI)
  fix r
  assume b: "transactionBody env d saved0 qs s = Inr r"
  from b obtain n0 w0 n1 ws saved wl where
    loop: "productLoop env (userId d) (products d) (n0, [w0], saved0) = Inr (n1, ws, saved)"
    and st: "staged r = ws @ [wl]"
    by (auto simp: transactionBody_def Let_def split: sum.splits option.splits prod.splits)
  from productLoop_writes[OF assms loop] obtain new where
    new: "ws = [w0] @ new" "length new = length (products d)"
      "\<forall>i<length (products d).
          itemWrite env (userId d) (n0 + length (filter isCreateItem (take i (products d))))
            (products d ! i) (new ! i)"
    by blast
  show "\<exists>n0 supplierWrite itemWrites documentWrite.
                staged r = supplierWrite # itemWrites @ [documentWrite]
              \<and> length itemWrites = length (products d)
              \<and> (\<forall>i<length (products d).
                    itemWrite env (userId d)
                      (n0 + length (filter isCreateItem (take i (products d))))
                      (products d ! i) (itemWrites ! i))"
    apply (rule exI[of _ n0], rule exI[of _ w0], rule exI[of _ new], rule exI[of _ wl])
    using st new by simp
next
  assume "(\<forall>ref snapshot. supplierQuery (userId d) (the (supplierName d)) qs = Some (ref, snapshot)
               \<longrightarrow> getDoc ref s \<noteq> None)
            \<and> (\<forall>p\<in>set (products d). isUpdateItem p \<or> isCreateItem p)"
  then show "\<exists>r. transactionBody env d saved0 qs s = Inr r"
    using transactionBody_returns[OF assms, of qs s env saved0] by blast
qed

theorem line_items_update_or_create_witness:
  "isUpdateItem known_bread \<and> isCreateItem temp_eggs \<and> isCreateItem milk
   \<and> (\<exists>r n0 sw iw dw.
         transactionBody (sample_env throwing_adapter accept_all)
           (sample_data invoice [known_bread, temp_eggs, milk]) [] [plain_supplier] [plain_supplier]
           = Inr r
       \<and> staged r = sw # iw @ [dw] \<and> length iw = 3
       \<and> itemWrite (sample_env throwing_adapter accept_all) ''u1'' n0 known_bread (iw ! 0)
       \<and> itemWrite (sample_env throwing_adapter accept_all) ''u1'' n0 temp_eggs (iw ! 1)
       \<and> itemWrite (sample_env throwing_adapter accept_all) ''u1'' (n0 + 1) milk (iw ! 2))"
proof -
  let ?E = "sample_env throwing_adapter accept_all"
  let ?D = "sample_data invoice [known_bread, temp_eggs, milk]"
  have k: "isUpdateItem known_bread" "isCreateItem temp_eggs" "isCreateItem milk"
    "\<not> isCreateItem known_bread"
    by (simp_all add: isUpdateItem_def isCreateItem_def known_bread_def temp_eggs_def milk_def
          field_def)
  have u: "userId ?D \<noteq> []" and p: "products ?D = [known_bread, temp_eggs, milk]"
    by (simp_all add: sample_data_def)
  have "\<not> isl (transactionBody ?E ?D [] [plain_supplier] [plain_supplier])"
    by code_simp
  then obtain r where r: "transactionBody ?E ?D [] [plain_supplier] [plain_supplier] = Inr r"
    by (cases "transactionBody ?E ?D [] [plain_supplier] [plain_supplier]") auto
  from line_items_update_or_create[OF u, of ?E "[]" "[plain_supplier]" "[plain_supplier]"] r
  obtain n0 sw iw dw where
    w: "staged r = sw # iw @ [dw]" "length iw = length (products ?D)"
       "\<forall>i<length (products ?D).
          itemWrite ?E (userId ?D) (n0 + length (filter isCreateItem (take i (products ?D))))
            (products ?D ! i) (iw ! i)"
    by blast
  have uid: "userId ?D = ''u1''" by (simp add: sample_data_def)
  from w(3) have "itemWrite ?E ''u1'' n0 known_bread (iw ! 0)"
    unfolding p uid by (elim allE[of _ 0]) simp
  moreover from w(3) have "itemWrite ?E ''u1'' n0 temp_eggs (iw ! 1)"
    unfolding p uid using k by (elim allE[of _ 1]) simp
  moreover from w(3) have "itemWrite ?E ''u1'' (n0 + 1) milk (iw ! 2)"
    unfolding p uid using k by (elim allE[of _ 2]) (simp add: numeral_2_eq_2)
  ultimately show ?thesis
    using k r w(1,2) p by auto
qed

subsection \<open>A supplier that vanishes before the transaction\<close>

text \<open>
  C5. The supplier lookup by name sees the store as it is before the transaction starts. If
  the supplier it finds is no longer there when the transaction reads it again, the body of the
  transaction throws: finalize fails with that error, nothing has been staged or written (in
  particular no new supplier is created in its place) and the store is as it was.
\<close>

theorem vanished_supplier_aborts:
  assumes "userId d \<noteq> []" and "truthy_str (supplierName d)"
    and "supplierQuery (userId d) (the (supplierName d)) qs = Some (ref, snapshot)"
    and "getDoc ref s = None"
  shows "transactionBody env d saved0 qs s
           = Inl (Error ''Supplier was deleted between the initial query and the transaction start.'')
       \<and> finalizeSaveProductsService env d qs (s, x)
           = (Inl (Error ''Supplier was deleted between the initial query and the transaction start.''),
              s, x)"
  using assms
  by (simp add: finalizeSaveProductsService_def runTransaction_def transactionAttempts.simps
        transactionBody_def Let_def)

theorem vanished_supplier_aborts_witness:
  "supplierQuery ''u1'' ''Acme'' [plain_supplier] = Some plain_supplier
   \<and> getDoc (fst plain_supplier) [] = None
   \<and> finalizeSaveProductsService (sample_env throwing_adapter accept_all)
        (sample_data invoice [milk]) [plain_supplier] ([], ())
       = (Inl (Error ''Supplier was deleted between the initial query and the transaction start.''),
          [], ())"
proof -
  let ?D = "sample_data invoice [milk]"
  have a: "userId ?D \<noteq> []" "truthy_str (supplierName ?D)"
    by (simp_all add: sample_data_def truthy_str_def)
  have b: "supplierQuery (userId ?D) (the (supplierName ?D)) [plain_supplier]
             = Some (fst plain_supplier, snd plain_supplier)"
    by (simp add: sample_data_def supplierQuery_def collectionDocs_def plain_supplier_def
          SUPPLIERS_SUBCOLLECTION_def field_def)
  have c: "getDoc (fst plain_supplier) [] = None"
    by (simp add: getDoc_def)
  from vanished_supplier_aborts[OF a b c, of "sample_env throwing_adapter accept_all" "[]" "()"] b c
  show ?thesis by (simp add: sample_data_def)
qed

subsection \<open>What the relay leaves alone\<close>

text \<open>
  Whatever the adapter and the store answer, the relay and its \<open>catch\<close> block change no
  document's field other than \<open>isSyncedToPos\<close>, \<open>syncStatus\<close> and \<open>posRefs\<close>, and they
  add and remove no document.
\<close>

lemma sameExcept_refl: "sameExceptRelayFields s s"
  by (simp add: sameExceptRelayFields_def)

lemma sameExcept_trans:
  "sameExceptRelayFields s s1 \<Longrightarrow> sameExceptRelayFields s1 s2 \<Longrightarrow> sameExceptRelayFields s s2"
  by (simp add: sameExceptRelayFields_def)

lemma split_dots_nonempty: "split_dots k \<noteq> []"
  by (induction k) (auto split: list.splits)

lemma field_set_path: "path \<noteq> [] \<Longrightarrow> hd path \<noteq> k \<Longrightarrow> field (set_path path v ob) k = field ob k"
  by (cases "(path, v, ob)" rule: set_path.cases) (auto simp: field_with_field)

lemma field_apply_update:
  "\<forall>c\<in>set changes. hd (split_dots (fst c)) \<noteq> k \<Longrightarrow> field (apply_update changes old) k = field old k"
proof (induction changes arbitrary: old)
  case Nil
  then show ?case by (simp add: apply_update_def)
next
  case (Cons c changes)
  obtain key v where c: "c = (key, v)" by (cases c)
  have "field (apply_update changes (set_path (split_dots key) v old)) k
      = field (set_path (split_dots key) v old) k"
    using Cons by simp
  also have "\<dots> = field old k"
    using Cons.prems c by (simp add: field_set_path split_dots_nonempty)
  finally show ?case using c by (simp add: apply_update_def)
qed

lemma updateDoc_frame:
  assumes "updateDoc p changes s = Inr s'"
    and "\<forall>c\<in>set changes. hd (split_dots (fst c)) \<in> relayFields"
  shows "sameExceptRelayFields s s'"
proof -
  from assms(1) obtain old where old: "map_of s p = Some old"
      and s': "s' = AList.update p (apply_update changes old) s"
    by (auto simp: updateDoc_def split: option.splits)
  have "field (apply_update changes old) k = field old k" if "k \<notin> relayFields" for k
    using assms(2) that by (intro field_apply_update) auto
  then show ?thesis
    using old s' by (auto simp: sameExceptRelayFields_def getDoc_def update_conv')
qed

lemma awaitUpdateDoc_frame:
  assumes "awaitUpdateDoc env p changes (s, x) = (res, s', x')"
    and "\<forall>c\<in>set changes. hd (split_dots (fst c)) \<in> relayFields"
  shows "sameExceptRelayFields s s'"
proof (cases "updateDoc p changes s")
  case (Inl e)
  with assms(1) show ?thesis
    by (auto simp: awaitUpdateDoc_def sameExcept_refl split: prod.splits option.splits)
next
  case (Inr t)
  from updateDoc_frame[OF Inr assms(2)] Inr assms(1) show ?thesis
    by (auto simp: awaitUpdateDoc_def sameExcept_refl split: prod.splits option.splits)
qed

lemma hd_split_dots_Cons:
  "hd (split_dots (c # cs)) = (if c = CHR ''.'' then [] else c # hd (split_dots cs))"
  using split_dots_nonempty[of cs] by (cases "split_dots cs") auto

lemma hd_split_dots_Nil: "hd (split_dots []) = []"
  by simp

lemma hd_posRefs_key: "hd (split_dots (''posRefs.'' @ sid)) = ''posRefs''"
  by (simp add: hd_split_dots_Cons del: split_dots.simps)

lemma hd_syncStatus_keys:
  "hd (split_dots ''syncStatus.status'') = ''syncStatus''"
  "hd (split_dots ''syncStatus.lastSync'') = ''syncStatus''"
  "hd (split_dots ''syncStatus.error'') = ''syncStatus''"
  "hd (split_dots ''isSyncedToPos'') = ''isSyncedToPos''"
  by (simp_all add: hd_split_dots_Cons hd_split_dots_Nil del: split_dots.simps)

lemma map_of_fold_update:
  "map_of (fold (\<lambda>(k, v). AList.update k v) b a) = map_of a ++ map_of (rev b)"
proof (induction b arbitrary: a)
  case Nil
  then show ?case by simp
next
  case (Cons x b)
  obtain k v where x: "x = (k, v)" by (cases x)
  show ?case
    using Cons[of "AList.update k v a"] x
    by (auto simp: update_conv' map_add_def fun_eq_iff split: option.splits)
qed

lemmas relay_keys = hd_posRefs_key hd_syncStatus_keys relayFields_def

lemma posSyncSupplier_frame:
  assumes "posSyncSupplier env config ref sd (s, x) = (res, s', x')"
  shows "sameExceptRelayFields s s'"
proof -
  have upd: "sameExceptRelayFields s t"
    if "awaitUpdateDoc env ref [(''posRefs.'' @ systemIdText config, v)] (s, y) = (a, t, y')"
    for v t y a y'
    using that by (rule awaitUpdateDoc_frame) (simp add: relay_keys)
  show ?thesis
    using assms upd
    by (auto simp: posSyncSupplier_def Let_def sameExcept_refl
             split: if_splits prod.splits sum.splits)
qed

lemma posSyncProducts_frame:
  "posSyncProducts env config uid ps (s, x) = (res, s', x') \<Longrightarrow> sameExceptRelayFields s s'"
proof (induction ps arbitrary: s x)
  case Nil
  then show ?case by (simp add: sameExcept_refl)
next
  case (Cons p ps)
  have upd: "sameExceptRelayFields s t"
    if "awaitUpdateDoc env r [(''posRefs.'' @ systemIdText config, v)] (s, y) = (a, t, y')"
    for r v t y a y'
    using that by (rule awaitUpdateDoc_frame) (simp add: relay_keys)
  have step: "sameExceptRelayFields s s'"
    if "awaitUpdateDoc env r [(''posRefs.'' @ systemIdText config, v)] (s, y) = (a, t, y')"
       "posSyncProducts env config uid ps (t, y') = (res, s', x')" for r v t y a y'
    using upd[OF that(1)] Cons.IH[OF that(2)] by (rule sameExcept_trans)
  show ?case
    using Cons.prems Cons.IH step upd
    by (auto simp: sameExcept_refl split: if_splits prod.splits sum.splits)
qed

lemma posSyncDocument_frame:
  assumes "posSyncDocument env config t ref rec (s, x) = (res, s', x')"
  shows "sameExceptRelayFields s s'"
proof -
  have upd1: "sameExceptRelayFields s u"
    if "awaitUpdateDoc env ref [(''isSyncedToPos'', a), (''syncStatus.status'', b),
          (''syncStatus.lastSync'', c), (''syncStatus.error'', e),
          (''posRefs.'' @ systemIdText config, v)] (s, y) = (o1, u, y')" for a b c e v u y o1 y'
    using that by (rule awaitUpdateDoc_frame) (simp add: relay_keys)
  have upd2: "sameExceptRelayFields s u"
    if "awaitUpdateDoc env ref [(''isSyncedToPos'', a), (''syncStatus.status'', b),
          (''syncStatus.lastSync'', c), (''syncStatus.error'', e)] (s, y) = (o1, u, y')"
    for a b c e u y o1 y'
    using that by (rule awaitUpdateDoc_frame) (simp add: relay_keys)
  show ?thesis
    using assms upd1 upd2
    by (auto simp: posSyncDocument_def sameExcept_refl
             split: if_splits prod.splits sum.splits)
qed

lemma posSync_frame:
  assumes "posSync env d r (s, x) = (res, s', x')"
  shows "sameExceptRelayFields s s'"
proof -
  have two: "sameExceptRelayFields s s2"
    if "posSyncSupplier env config ref sd (s, y) = (r1, s1, x1)"
       "posSyncProducts env config uid ps (s1, x1) = (r2, s2, x2)"
    for config ref sd r1 s1 x1 uid ps r2 s2 x2 y
    using posSyncSupplier_frame[OF that(1)] posSyncProducts_frame[OF that(2)]
    by (rule sameExcept_trans)
  have three: "sameExceptRelayFields s s3"
    if "posSyncSupplier env config ref sd (s, y) = (r1, s1, x1)"
       "posSyncProducts env config uid ps (s1, x1) = (r2, s2, x2)"
       "posSyncDocument env config t iref rec (s2, x2) = (r3, s3, x3)"
    for config ref sd r1 s1 x1 uid ps r2 s2 x2 t iref rec r3 s3 x3 y
    using two[OF that(1,2)] posSyncDocument_frame[OF that(3)]
    by (rule sameExcept_trans)
  show ?thesis
    using assms posSyncSupplier_frame two three
    by (auto simp: posSync_def Let_def sameExcept_refl
             split: if_splits prod.splits sum.splits option.splits)
qed

lemma posSyncCatch_frame:
  assumes "posSyncCatch env d r e (s, x) = (res, s', x')"
  shows "sameExceptRelayFields s s'"
proof -
  have upd: "sameExceptRelayFields s u"
    if "awaitUpdateDoc env ref [(''isSyncedToPos'', a), (''syncStatus.status'', b),
          (''syncStatus.error'', c)] (s, y) = (o1, u, y')" for ref a b c u y o1 y'
    using that by (rule awaitUpdateDoc_frame) (simp add: relay_keys)
  show ?thesis
    using assms upd
    by (auto simp: posSyncCatch_def sameExcept_refl split: if_splits sum.splits)
qed

subsection \<open>All or nothing\<close>

text \<open>
  A call of \<open>runTransaction\<close> that fails leaves a store without any write of the call; one
  that returns has run the function a last time, on the store \<open>sa\<close>, and has applied all that
  this run staged.
\<close>

lemma apply_writes_append:
  "apply_writes (ws @ [w]) s
     = (case apply_writes ws s of None \<Rightarrow> None | Some s1 \<Rightarrow> apply_write w s1)"
  by (induction ws arbitrary: s) (auto split: option.splits)

lemma idsFrom_0: "idsFrom 0 env = env"
  by (simp add: idsFrom_def)

lemma storeRejects_idsFrom: "storeRejects (idsFrom k env) = storeRejects env"
  by (simp add: idsFrom_def)

lemma leftByOthers_refl: "leftByOthers env s s"
  by (simp add: leftByOthers_def)

lemma leftByOthers_step:
  "contention env a = Some (qs', s1) \<Longrightarrow> leftByOthers env s1 s2 \<Longrightarrow> leftByOthers env s s2"
  by (auto simp: leftByOthers_def)

lemma transactionAttempts_Inl:
  "transactionAttempts env d n a k saved qs s = (Inl e, s0) \<Longrightarrow> leftByOthers env s s0"
proof (induction n arbitrary: a k saved qs s)
  case 0
  then show ?case
    by (subst (asm) transactionAttempts.simps)
       (auto simp: leftByOthers_def split: sum.splits option.splits prod.splits)
next
  case (Suc n)
  from Suc.prems show ?case
    by (subst (asm) transactionAttempts.simps)
       (auto simp: leftByOthers_refl dest: Suc.IH leftByOthers_step
             split: sum.splits option.splits prod.splits)
qed

lemma attempt_commits:
  assumes "transactionBody (idsFrom k env) d saved qs s = Inr r1" "contention env a = None"
    and "transactionAttempts env d n a k saved qs s = (Inr r, s0)"
  shows "r = r1 \<and> \<not> list_ex (storeRejects env) (staged r) \<and> apply_writes (staged r) s = Some s0"
  using assms(3) assms(1,2)
  by (subst (asm) transactionAttempts.simps)
     (auto simp: commit_def split: option.splits if_splits)

lemma transactionAttempts_Inr:
  "transactionAttempts env d n a k saved qs s = (Inr r, s0) \<Longrightarrow>
     \<exists>k' saved' qa sa. transactionBody (idsFrom k' env) d saved' qa sa = Inr r
        \<and> leftByOthers env s sa
        \<and> \<not> list_ex (storeRejects env) (staged r)
        \<and> apply_writes (staged r) sa = Some s0"
proof (induction n arbitrary: a k saved qs s)
  case 0
  show ?case
  proof (cases "transactionBody (idsFrom k env) d saved qs s")
    case (Inl e)
    with 0 show ?thesis by (subst (asm) transactionAttempts.simps) simp
  next
    case (Inr r1)
    show ?thesis
    proof (cases "contention env a")
      case None
      from attempt_commits[OF Inr None 0] Inr leftByOthers_refl[of env s]
      show ?thesis by blast
    next
      case (Some w)
      with Inr 0 show ?thesis
        by (subst (asm) transactionAttempts.simps) (auto split: prod.splits)
    qed
  qed
next
  case (Suc n)
  show ?case
  proof (cases "transactionBody (idsFrom k env) d saved qs s")
    case (Inl e)
    with Suc.prems show ?thesis by (subst (asm) transactionAttempts.simps) simp
  next
    case (Inr r1)
    show ?thesis
    proof (cases "contention env a")
      case None
      from attempt_commits[OF Inr None Suc.prems] Inr leftByOthers_refl[of env s]
      show ?thesis by blast
    next
      case (Some w)
      obtain qs' s1 where w: "w = (qs', s1)" by (cases w)
      from Suc.prems Inr Some w
      have "transactionAttempts env d n (Suc a) (k + idsDrawn r1) (savedOrUpdatedProducts r1) qs' s1
              = (Inr r, s0)"
        by (subst (asm) transactionAttempts.simps) simp
      from Suc.IH[OF this] obtain k' saved' qa sa where
        "transactionBody (idsFrom k' env) d saved' qa sa = Inr r" "leftByOthers env s1 sa"
        "\<not> list_ex (storeRejects env) (staged r)" "apply_writes (staged r) sa = Some s0"
        by blast
      moreover from this(2) Some w have "leftByOthers env s sa"
        by (auto intro: leftByOthers_step)
      ultimately show ?thesis by blast
    qed
  qed
qed

lemma runTransaction_Inl: "runTransaction env d qs s = (Inl e, s0) \<Longrightarrow> leftByOthers env s s0"
  unfolding runTransaction_def by (rule transactionAttempts_Inl)

lemma runTransaction_Inr:
  "runTransaction env d qs s = (Inr r, s0) \<Longrightarrow>
     \<exists>k saved qa sa. transactionBody (idsFrom k env) d saved qa sa = Inr r
        \<and> leftByOthers env s sa
        \<and> \<not> list_ex (storeRejects env) (staged r)
        \<and> apply_writes (staged r) sa = Some s0"
  unfolding runTransaction_def by (rule transactionAttempts_Inr)

lemma runTransaction_commit_fails:
  assumes "contention env 0 = None" "transactionBody env d [] qs s = Inr r"
    and "commit (storeRejects env) (staged r) s = None"
  shows "runTransaction env d qs s = (Inl (FirestoreError ''The transaction was aborted.''), s)"
  using assms by (simp add: runTransaction_def transactionAttempts.simps idsFrom_0)

lemma recordId_invoiceData: "recordId (invoiceData env d pending iid sid saved) = iid"
  by (simp add: recordId_def invoiceData_def field_def)

lemma transactionBody_document:
  assumes "transactionBody env d saved0 qs s = Inr r"
  shows "\<exists>ws pending.
           staged r = ws @ [TxSetMerge (userId d, DOCUMENTS_SUBCOLLECTION,
                                         recordId (finalInvoiceRecord r)) (finalInvoiceRecord r)]
         \<and> finalInvoiceRecord r
             = invoiceData env d pending (recordId (finalInvoiceRecord r)) (finalSupplierId r)
                 (savedOrUpdatedProducts r)"
  using assms
  by (auto simp: transactionBody_def Let_def recordId_invoiceData
           split: sum.splits option.splits prod.splits)

lemma getDoc_setDocMerge:
  "getDoc p (setDocMerge p rec s)
     = Some (case getDoc p s of None \<Rightarrow> rec | Some old \<Rightarrow> spread old rec)"
  by (simp add: getDoc_def setDocMerge_def update_conv' split: option.splits)

lemma committed_document:
  assumes "runTransaction env d qs s = (Inr r, s0)"
  shows "\<exists>before. getDoc (userId d, DOCUMENTS_SUBCOLLECTION, recordId (finalInvoiceRecord r)) s0
            = Some (spread before (finalInvoiceRecord r))
          \<or> getDoc (userId d, DOCUMENTS_SUBCOLLECTION, recordId (finalInvoiceRecord r)) s0
            = Some (finalInvoiceRecord r)"
proof -
  from runTransaction_Inr[OF assms] obtain k saved qa sa where
    b: "transactionBody (idsFrom k env) d saved qa sa = Inr r"
    and a: "apply_writes (staged r) sa = Some s0" by blast
  from transactionBody_document[OF b] obtain ws where
    "staged r = ws @ [TxSetMerge (userId d, DOCUMENTS_SUBCOLLECTION,
                                   recordId (finalInvoiceRecord r)) (finalInvoiceRecord r)]"
    by blast
  with a obtain s1 where
    "s0 = setDocMerge (userId d, DOCUMENTS_SUBCOLLECTION, recordId (finalInvoiceRecord r))
            (finalInvoiceRecord r) s1"
    by (auto simp: apply_writes_append split: option.splits)
  then show ?thesis
    using getDoc_setDocMerge[of "(userId d, DOCUMENTS_SUBCOLLECTION, recordId (finalInvoiceRecord r))"
        "finalInvoiceRecord r" s1]
    by (cases "getDoc (userId d, DOCUMENTS_SUBCOLLECTION, recordId (finalInvoiceRecord r)) s1") auto
qed

lemma finalize_after_commit:
  assumes f: "finalizeSaveProductsService env d qs (s, x) = (res, s', x')"
    and c: "runTransaction env d qs s = (Inr r, s0)"
    and u: "userId d \<noteq> []" "truthy_str (supplierName d)"
  shows "sameExceptRelayFields s0 s'
       \<and> (\<forall>out. res = Inr out \<longrightarrow> out = (finalInvoiceRecord r, savedOrUpdatedProducts r))"
proof -
  obtain pr s1 x1 where ps: "posSync env d r (s0, x) = (pr, s1, x1)"
    by (cases "posSync env d r (s0, x)") auto
  have f1: "sameExceptRelayFields s0 s1" using ps by (rule posSync_frame)
  show ?thesis
  proof (cases pr)
    case (Inr u')
    then show ?thesis using f c u ps f1 by (auto simp: finalizeSaveProductsService_def)
  next
    case (Inl posError)
    obtain cr s2 x2 where pc: "posSyncCatch env d r posError (s1, x1) = (cr, s2, x2)"
      by (cases "posSyncCatch env d r posError (s1, x1)") auto
    have "sameExceptRelayFields s0 s2"
      using f1 posSyncCatch_frame[OF pc] by (rule sameExcept_trans)
    then show ?thesis
      using f c u ps Inl pc by (cases cr) (auto simp: finalizeSaveProductsService_def)
  qed
qed

text \<open>
  C1. Finalization is all-or-nothing. Whatever a finalize call returns, the store is afterwards
  in one of two states. Either it holds no write of the call: it is the store that the call
  found (or the store as other writers left it while the transaction was contended), the
  outside world has not been called, and the call has failed. Or every write that the last run
  of the transaction's function staged (supplier, line items, document) has been applied to
  the store which that run read, the store has refused none of them, and what follows the
  commit has changed nothing but the relay's own fields. Whenever the transaction fails (an
  exception in its function, an update of a missing inventory record, a write that the store
  refuses at commit, such as the document write, or contention at every attempt), the call
  fails with the error of the transaction and the first case holds. In particular, when the
  store refuses a write that the first attempt has staged, and that attempt meets no
  contention, the store and the outside world are exactly as before the call: no supplier
  counter, inventory record or document field of the call is visible.
\<close>

theorem finalize_all_or_nothing:
  assumes "finalizeSaveProductsService env d qs (s, x) = (res, s', x')"
  shows "(((\<exists>e. res = Inl e) \<and> x' = x \<and> leftByOthers env s s')
          \<or> (\<exists>r k saved qa sa s0.
                 transactionBody (idsFrom k env) d saved qa sa = Inr r
               \<and> leftByOthers env s sa
               \<and> \<not> list_ex (storeRejects env) (staged r)
               \<and> apply_writes (staged r) sa = Some s0
               \<and> sameExceptRelayFields s0 s'))
       \<and> (\<forall>e s0. userId d \<noteq> [] \<and> truthy_str (supplierName d)
               \<and> runTransaction env d qs s = (Inl e, s0)
             \<longrightarrow> res = Inl e \<and> s' = s0 \<and> x' = x \<and> leftByOthers env s s0)
       \<and> (\<forall>r. userId d \<noteq> [] \<and> truthy_str (supplierName d) \<and> contention env 0 = None
               \<and> transactionBody env d [] qs s = Inr r
               \<and> commit (storeRejects env) (staged r) s = None
             \<longrightarrow> (\<exists>e. res = Inl e) \<and> s' = s \<and> x' = x)"
proof -
  have none_or_all:
    "((\<exists>e. res = Inl e) \<and> x' = x \<and> leftByOthers env s s')
      \<or> (\<exists>r k saved qa sa s0.
             transactionBody (idsFrom k env) d saved qa sa = Inr r
           \<and> leftByOthers env s sa
           \<and> \<not> list_ex (storeRejects env) (staged r)
           \<and> apply_writes (staged r) sa = Some s0
           \<and> sameExceptRelayFields s0 s')"
  proof (cases "userId d \<noteq> [] \<and> truthy_str (supplierName d)")
    case False
    then show ?thesis
      using assms by (auto simp: finalizeSaveProductsService_def leftByOthers_refl split: if_splits)
  next
    case True
    obtain tr s0 where t: "runTransaction env d qs s = (tr, s0)"
      by (cases "runTransaction env d qs s") auto
    show ?thesis
    proof (cases tr)
      case (Inl e)
      then show ?thesis
        using assms True t runTransaction_Inl[of env d qs s e s0]
        by (auto simp: finalizeSaveProductsService_def)
    next
      case (Inr r)
      with t have c: "runTransaction env d qs s = (Inr r, s0)" by simp
      from finalize_after_commit[OF assms c] True have "sameExceptRelayFields s0 s'" by simp
      with runTransaction_Inr[OF c] show ?thesis by blast
    qed
  qed
  have aborted: "res = Inl e \<and> s' = s0 \<and> x' = x \<and> leftByOthers env s s0"
    if "userId d \<noteq> [] \<and> truthy_str (supplierName d) \<and> runTransaction env d qs s = (Inl e, s0)"
    for e s0
    using that assms runTransaction_Inl[of env d qs s e s0]
    by (auto simp: finalizeSaveProductsService_def)
  have refused: "(\<exists>e. res = Inl e) \<and> s' = s \<and> x' = x"
    if a: "userId d \<noteq> [] \<and> truthy_str (supplierName d) \<and> contention env 0 = None
               \<and> transactionBody env d [] qs s = Inr r
               \<and> commit (storeRejects env) (staged r) s = None"
    for r
  proof -
    from a have "runTransaction env d qs s
                   = (Inl (FirestoreError ''The transaction was aborted.''), s)"
      using runTransaction_commit_fails[of env d qs s r] by simp
    with a assms show ?thesis
      by (auto simp: finalizeSaveProductsService_def)
  qed
  from none_or_all aborted refused show ?thesis by blast
qed

theorem finalize_all_or_nothing_witness:
  "contention (sample_env throwing_adapter reject_documents) 0 = None
   \<and> \<not> isl (transactionBody (sample_env throwing_adapter reject_documents)
               (sample_data invoice [milk]) [] [caspit_settings, plain_supplier]
               [caspit_settings, plain_supplier])
   \<and> length (staged (projr (transactionBody (sample_env throwing_adapter reject_documents)
               (sample_data invoice [milk]) [] [caspit_settings, plain_supplier]
               [caspit_settings, plain_supplier]))) = 3
   \<and> finalizeSaveProductsService (sample_env throwing_adapter reject_documents)
       (sample_data invoice [milk]) [caspit_settings, plain_supplier]
       ([caspit_settings, plain_supplier], ())
     = (Inl (FirestoreError ''The transaction was aborted.''),
        [caspit_settings, plain_supplier], ())"
proof -
  let ?E = "sample_env throwing_adapter reject_documents"
  let ?D = "sample_data invoice [milk]"
  let ?S = "[caspit_settings, plain_supplier]"
  let ?f = "finalizeSaveProductsService ?E ?D ?S (?S, ())"
  let ?b = "transactionBody ?E ?D [] ?S ?S"
  have u: "userId ?D \<noteq> []" "truthy_str (supplierName ?D)"
    by (simp_all add: sample_data_def truthy_str_def)
  have c: "contention ?E 0 = None"
    by (simp add: sample_env_def)
  have b: "\<not> isl ?b"
    by code_simp
  then have r: "?b = Inr (projr ?b)"
    by (cases ?b) auto
  have n: "length (staged (projr ?b)) = 3"
    by code_simp
  have k: "commit (storeRejects ?E) (staged (projr ?b)) ?S = None"
    by code_simp
  have a: "fst ?f = Inl (FirestoreError ''The transaction was aborted.'')"
    by code_simp
  have "?f = (fst ?f, fst (snd ?f), snd (snd ?f))" by (metis prod.collapse)
  from finalize_all_or_nothing[OF this] u c r k
  have "fst (snd ?f) = ?S" by blast
  with a b c n show ?thesis by (simp add: prod_eq_iff)
qed

text \<open>
  A finalize call may also fail after its transaction has committed: the supplier upsert
  throws, the \<open>catch\<close> block of the relay sends its status update, and the store does not
  answer it. The call rejects, and the document and the supplier counter of the call are in
  the store (the second case above).
\<close>

lemma finalize_can_fail_after_the_commit:
  "fst (finalizeSaveProductsService
          (sample_env throwing_adapter accept_all\<lparr>storeCall := updates_unavailable\<rparr>)
          (sample_data invoice [milk]) [caspit_settings, plain_supplier]
          ([caspit_settings, plain_supplier], ()))
     = Inl (FirestoreError ''unavailable'')
   \<and> field (the (getDoc (''u1'', ''documents'', ''auto-aa'')
              (fst (snd (finalizeSaveProductsService
                 (sample_env throwing_adapter accept_all\<lparr>storeCall := updates_unavailable\<rparr>)
                 (sample_data invoice [milk]) [caspit_settings, plain_supplier]
                 ([caspit_settings, plain_supplier], ()))))))
        ''status'' = Some (JStr ''completed'')
   \<and> field (the (getDoc (''u1'', ''suppliers'', ''s1'')
              (fst (snd (finalizeSaveProductsService
                 (sample_env throwing_adapter accept_all\<lparr>storeCall := updates_unavailable\<rparr>)
                 (sample_data invoice [milk]) [caspit_settings, plain_supplier]
                 ([caspit_settings, plain_supplier], ()))))))
        ''invoiceCount'' = Some (JNum 2)"
  by code_simp

text \<open>
  A call whose first commit meets contention runs the function twice. The second run commits:
  one inventory record, under the id drawn by that run, and the supplier counter raised once.
  The array of saved products, which the call returns and the document stores, holds the line
  item of the aborted run too.
\<close>

lemma retried_attempt_leaves_its_line_items:
  "products (sample_data invoice [milk]) = [milk]
   \<and> map (\<lambda>p. field p ''id'')
       (snd (projr (fst (finalizeSaveProductsService
          (sample_env throwing_adapter accept_all\<lparr>contention := contended_once\<rparr>)
          (sample_data invoice [milk]) [plain_supplier] ([plain_supplier], ())))))
     = [Some (JStr ''auto-a''), Some (JStr ''auto-aaa'')]
   \<and> map fst (fst (snd (finalizeSaveProductsService
        (sample_env throwing_adapter accept_all\<lparr>contention := contended_once\<rparr>)
        (sample_data invoice [milk]) [plain_supplier] ([plain_supplier], ()))))
     = [(''u1'', ''suppliers'', ''s1''), (''u1'', ''inventoryProducts'', ''auto-aaa''),
        (''u1'', ''documents'', ''auto-aaaa'')]
   \<and> field (the (getDoc (''u1'', ''suppliers'', ''s1'')
        (fst (snd (finalizeSaveProductsService
          (sample_env throwing_adapter accept_all\<lparr>contention := contended_once\<rparr>)
          (sample_data invoice [milk]) [plain_supplier] ([plain_supplier], ()))))))
        ''invoiceCount'' = Some (JNum 3)"
  by code_simp

subsection \<open>The committed document\<close>

lemma field_spread:
  "field (spread a b) k = (case map_of (rev b) k of Some v \<Rightarrow> Some v | None \<Rightarrow> field a k)"
proof -
  have "(\<lambda>(k, v). with_field k v) = (\<lambda>(k, v). AList.update k v)"
    by (simp add: with_field_def fun_eq_iff)
  then show ?thesis
    by (simp add: spread_def field_def map_of_fold_update map_add_def split: option.splits)
qed

lemma invoiceData_fields:
  "map_of (rev (invoiceData env d pending iid sid saved)) ''status'' = Some (JStr ''completed'')"
  "map_of (rev (invoiceData env d pending iid sid saved)) ''paymentStatus''
     = Some (JStr (paymentStatusFor (docType d)))"
  "map_of (rev (invoiceData env d pending iid sid saved)) ''linkedInvoiceId'' = Some JNull"
  "field (invoiceData env d pending iid sid saved) ''status'' = Some (JStr ''completed'')"
  "field (invoiceData env d pending iid sid saved) ''paymentStatus''
     = Some (JStr (paymentStatusFor (docType d)))"
  "field (invoiceData env d pending iid sid saved) ''linkedInvoiceId'' = Some JNull"
  by (simp_all add: invoiceData_def field_def)

lemma committed_document_fields:
  assumes "runTransaction env d qs s = (Inr r, s0)"
  shows "\<exists>doc. getDoc (userId d, DOCUMENTS_SUBCOLLECTION, recordId (finalInvoiceRecord r)) s0
                 = Some doc
        \<and> field doc ''status'' = Some (JStr ''completed'')
        \<and> field doc ''paymentStatus'' = Some (JStr (paymentStatusFor (docType d)))
        \<and> field doc ''linkedInvoiceId'' = Some JNull
        \<and> field (finalInvoiceRecord r) ''paymentStatus''
            = Some (JStr (paymentStatusFor (docType d)))
        \<and> field (finalInvoiceRecord r) ''linkedInvoiceId'' = Some JNull"
proof -
  from runTransaction_Inr[OF assms] obtain k saved qa sa where
    "transactionBody (idsFrom k env) d saved qa sa = Inr r" by blast
  from transactionBody_document[OF this]
  obtain pending where
    rec: "finalInvoiceRecord r
            = invoiceData (idsFrom k env) d pending (recordId (finalInvoiceRecord r))
                (finalSupplierId r) (savedOrUpdatedProducts r)"
    by blast
  have f: "field (finalInvoiceRecord r) ''status'' = Some (JStr ''completed'')"
       "field (finalInvoiceRecord r) ''paymentStatus'' = Some (JStr (paymentStatusFor (docType d)))"
       "field (finalInvoiceRecord r) ''linkedInvoiceId'' = Some JNull"
    by (subst rec, simp add: invoiceData_fields)+
  have g: "field (spread before (finalInvoiceRecord r)) ''status'' = Some (JStr ''completed'')"
       "field (spread before (finalInvoiceRecord r)) ''paymentStatus''
          = Some (JStr (paymentStatusFor (docType d)))"
       "field (spread before (finalInvoiceRecord r)) ''linkedInvoiceId'' = Some JNull"
    for before
    by (subst rec, simp add: field_spread invoiceData_fields)+
  from committed_document[OF assms] f g show ?thesis by auto
qed

lemma sameExcept_field:
  assumes "sameExceptRelayFields s s'" "getDoc p s = Some doc" "k \<notin> relayFields"
  shows "\<exists>doc'. getDoc p s' = Some doc' \<and> field doc' k = field doc k"
proof -
  from assms(1) have a: "(getDoc p s' = None) = (getDoc p s = None)"
    and b: "map_option (\<lambda>doc. field doc k) (getDoc p s')
              = map_option (\<lambda>doc. field doc k) (getDoc p s)"
    using assms(3) by (cases p, auto simp: sameExceptRelayFields_def)+
  from a assms(2) obtain doc' where "getDoc p s' = Some doc'" by auto
  with b assms(2) show ?thesis by simp
qed

lemma not_relay_fields:
  "''status'' \<notin> relayFields" "''paymentStatus'' \<notin> relayFields"
  "''linkedInvoiceId'' \<notin> relayFields"
  by (simp_all add: relayFields_def)

text \<open>
  For every finalize call on a receipt that returns, the record returned and the Document
  stored have \<open>paymentStatus = "paid"\<close> and \<open>linkedInvoiceId = null\<close>: the input of
  finalize has no field for a linked invoice.
\<close>

lemma finalized_receipt_has_no_link:
  assumes "docType d = receipt"
    and "finalizeSaveProductsService env d qs (s, x) = (Inr (newRecord, saved), s', x')"
  shows "field newRecord ''paymentStatus'' = Some (JStr ''paid'')
       \<and> field newRecord ''linkedInvoiceId'' = Some JNull
       \<and> (\<exists>doc. getDoc (userId d, DOCUMENTS_SUBCOLLECTION, recordId newRecord) s' = Some doc
              \<and> field doc ''paymentStatus'' = Some (JStr ''paid'')
              \<and> field doc ''linkedInvoiceId'' = Some JNull)"
proof -
  from assms(2) have u: "userId d \<noteq> []" "truthy_str (supplierName d)"
    by (auto simp: finalizeSaveProductsService_def split: if_splits)
  obtain tr s0 where t: "runTransaction env d qs s = (tr, s0)"
    by (cases "runTransaction env d qs s") auto
  from assms(2) u t obtain r where r: "tr = Inr r"
    by (cases tr) (auto simp: finalizeSaveProductsService_def)
  with t have c: "runTransaction env d qs s = (Inr r, s0)" by simp
  from finalize_after_commit[OF assms(2) c u]
  have out: "newRecord = finalInvoiceRecord r" and fr: "sameExceptRelayFields s0 s'"
    by auto
  from committed_document_fields[OF c] obtain doc where
    doc: "getDoc (userId d, DOCUMENTS_SUBCOLLECTION, recordId (finalInvoiceRecord r)) s0 = Some doc"
      "field doc ''paymentStatus'' = Some (JStr (paymentStatusFor (docType d)))"
      "field doc ''linkedInvoiceId'' = Some JNull"
      "field (finalInvoiceRecord r) ''paymentStatus'' = Some (JStr (paymentStatusFor (docType d)))"
      "field (finalInvoiceRecord r) ''linkedInvoiceId'' = Some JNull"
    by blast
  from sameExcept_field[OF fr doc(1) not_relay_fields(2)] sameExcept_field[OF fr doc(1) not_relay_fields(3)]
  obtain doc' where "getDoc (userId d, DOCUMENTS_SUBCOLLECTION, recordId (finalInvoiceRecord r)) s' = Some doc'"
    "field doc' ''paymentStatus'' = field doc ''paymentStatus''"
    "field doc' ''linkedInvoiceId'' = field doc ''linkedInvoiceId''"
    by auto
  then show ?thesis
    using doc out assms(1) by (simp add: paymentStatusFor_def)
qed

text \<open>
  C6. The claim is that, for a receipt with a resolved supplier, after the caller has selected
  invoice \<open>inv-7\<close> in the \<open>prompt_link_invoice\<close> step, the finalized Document has
  \<open>linkedInvoiceId = "inv-7"\<close> and \<open>paymentStatus = "paid"\<close>. The code does not do that.
  Evaluated on such a call: the flow stands at \<open>prompt_link_invoice\<close>, the selection is
  recorded in the flow's \<open>finalizedLinkedInvoiceId\<close> and the flow moves to
  \<open>ready_to_save\<close>; finalize of the receipt returns; the stored Document has
  \<open>paymentStatus = "paid"\<close>, but its \<open>linkedInvoiceId\<close> is \<open>null\<close>, not \<open>inv-7\<close>.
\<close>

theorem selected_invoice_link_is_dropped:
  "currentDialogStep sample_flow = prompt_link_invoice
   \<and> finalizedLinkedInvoiceId (handleLinkInvoice ''inv-7'' sample_flow) = Some ''inv-7''
   \<and> currentDialogStep (handleLinkInvoice ''inv-7'' sample_flow) = ready_to_save
   \<and> \<not> isl (fst (finalizeSaveProductsService (sample_env throwing_adapter accept_all)
                    (sample_data receipt [milk]) [plain_supplier] ([plain_supplier], ())))
   \<and> field (the (getDoc (''u1'', ''documents'', ''auto-aa'')
              (fst (snd (finalizeSaveProductsService (sample_env throwing_adapter accept_all)
                    (sample_data receipt [milk]) [plain_supplier] ([plain_supplier], ()))))))
        ''paymentStatus'' = Some (JStr ''paid'')
   \<and> field (the (getDoc (''u1'', ''documents'', ''auto-aa'')
              (fst (snd (finalizeSaveProductsService (sample_env throwing_adapter accept_all)
                    (sample_data receipt [milk]) [plain_supplier] ([plain_supplier], ()))))))
        ''linkedInvoiceId'' = Some JNull
   \<and> field (the (getDoc (''u1'', ''documents'', ''auto-aa'')
              (fst (snd (finalizeSaveProductsService (sample_env throwing_adapter accept_all)
                    (sample_data receipt [milk]) [plain_supplier] ([plain_supplier], ()))))))
        ''linkedInvoiceId'' \<noteq> Some (JStr ''inv-7'')"
  by code_simp

subsection \<open>The relay after the commit\<close>

text \<open>
  C2. The claim is that, when a POS adapter call throws after the commit, the Document gets
  \<open>syncStatus.status = "error"\<close>. The code does not do that for the product upserts.
  Evaluated on such a call: the user has configured Caspit, the supplier already carries an
  external id for it, the document is a delivery note with one new line item, and every method
  of the adapter throws. The product upsert for the saved line item throws, the server action
  turns the exception into a failed result, the relay skips it, and the Document ends with
  \<open>syncStatus.status = "success"\<close> and \<open>isSyncedToPos = true\<close>.
\<close>

theorem failed_product_upsert_is_reported_as_success:
  "upsertProduct throwing_adapter
       (with_field ''userId'' (JStr ''u1'')
          (hd (snd (projr (fst (finalizeSaveProductsService (sample_env throwing_adapter accept_all)
                    (sample_data deliveryNote [milk]) [caspit_settings, synced_supplier]
                    ([caspit_settings, synced_supplier], ()))))))) ()
     = (Inl ''connection refused'', ())
   \<and> getIn (the (getDoc (''u1'', ''documents'', ''auto-aa'')
              (fst (snd (finalizeSaveProductsService (sample_env throwing_adapter accept_all)
                    (sample_data deliveryNote [milk]) [caspit_settings, synced_supplier]
                    ([caspit_settings, synced_supplier], ()))))))
        [''syncStatus'', ''status''] = Some (JStr ''success'')
   \<and> field (the (getDoc (''u1'', ''documents'', ''auto-aa'')
              (fst (snd (finalizeSaveProductsService (sample_env throwing_adapter accept_all)
                    (sample_data deliveryNote [milk]) [caspit_settings, synced_supplier]
                    ([caspit_settings, synced_supplier], ()))))))
        ''isSyncedToPos'' = Some (JBool True)"
  by code_simp

text \<open>
  The two other steps of the relay do report a failed result. With a supplier that has no
  external id yet, the failed supplier upsert is thrown and recorded on the Document; with a
  payable document type, so is the failed expense creation.
\<close>

lemma failed_supplier_upsert_is_reported_as_error:
  "\<not> isl (fst (finalizeSaveProductsService (sample_env throwing_adapter accept_all)
                    (sample_data deliveryNote [milk]) [caspit_settings, plain_supplier]
                    ([caspit_settings, plain_supplier], ())))
   \<and> getIn (the (getDoc (''u1'', ''documents'', ''auto-aa'')
              (fst (snd (finalizeSaveProductsService (sample_env throwing_adapter accept_all)
                    (sample_data deliveryNote [milk]) [caspit_settings, plain_supplier]
                    ([caspit_settings, plain_supplier], ()))))))
        [''syncStatus'', ''status''] = Some (JStr ''error'')
   \<and> getIn (the (getDoc (''u1'', ''documents'', ''auto-aa'')
              (fst (snd (finalizeSaveProductsService (sample_env throwing_adapter accept_all)
                    (sample_data deliveryNote [milk]) [caspit_settings, plain_supplier]
                    ([caspit_settings, plain_supplier], ()))))))
        [''syncStatus'', ''error'']
       = Some (JStr ''POS Sync Failed: POS supplier sync failed: connection refused'')"
  by code_simp

lemma failed_expense_creation_is_reported_as_error:
  "\<not> isl (fst (finalizeSaveProductsService (sample_env throwing_adapter accept_all)
                    (sample_data invoice [milk]) [caspit_settings, synced_supplier]
                    ([caspit_settings, synced_supplier], ())))
   \<and> getIn (the (getDoc (''u1'', ''documents'', ''auto-aa'')
              (fst (snd (finalizeSaveProductsService (sample_env throwing_adapter accept_all)
                    (sample_data invoice [milk]) [caspit_settings, synced_supplier]
                    ([caspit_settings, synced_supplier], ()))))))
        [''syncStatus'', ''status''] = Some (JStr ''error'')
   \<and> getIn (the (getDoc (''u1'', ''documents'', ''auto-aa'')
              (fst (snd (finalizeSaveProductsService (sample_env throwing_adapter accept_all)
                    (sample_data invoice [milk]) [caspit_settings, synced_supplier]
                    ([caspit_settings, synced_supplier], ()))))))
        [''syncStatus'', ''error'']
       = Some (JStr ''POS Sync Failed: POS expense creation failed: connection refused'')"
  by code_simp

section \<open>Properties of supplier creation\<close>

lemma createSupplierService_returns_existing:
  assumes "truthy (field supplierData ''name'')" "uid \<noteq> []"
    and "queryEqLimit1 (uid, ''suppliers'') ''name'' (the (field supplierData ''name'')) s
           = [(ref, existing)]"
  shows "createSupplierService env supplierData uid s
           = (Inr (spread [(''id'', JStr (docId ref))] existing), s)"
  using assms by (simp add: createSupplierService_def getUserSubcollectionRef_def)

text \<open>
  C7. User u1 has a supplier named Acme, stored under id s1. Asked to create a supplier named
  Acme, \<open>createSupplierService\<close> returns the stored record and leaves the store alone;
  \<open>createSupplierAndSyncWithPosService\<close> looks nothing up and returns a new supplier object
  under a generated id, not the stored record.
\<close>

theorem second_creation_path_ignores_existing_name:
  "createSupplierService (sample_env throwing_adapter accept_all) acme_request ''u1''
       [plain_supplier]
     = (Inr [(''id'', JStr ''s1''), (''name'', JStr ''Acme''), (''totalSpent'', JNum 10),
             (''invoiceCount'', JNum 1), (''posRefs'', JObj [])],
        [plain_supplier])
   \<and> createSupplierAndSyncWithPosService (sample_env throwing_adapter accept_all) acme_request
       ''u1'' ([plain_supplier], ())
     = (Inr [(''name'', JStr ''Acme''), (''paymentTerms'', JStr ''Net 30''),
             (''userId'', JStr ''u1''), (''createdAt'', JStr ''2025-01-01T00:00:00.000Z''),
             (''lastActivityDate'', JStr ''2025-01-01T00:00:00.000Z''),
             (''posRefs'', JObj []), (''id'', JStr ''auto-a'')],
        [plain_supplier], ())"
  by code_simp

end
